theory Spec2Isabelle
  imports Main
begin

section \<open>JavaScript values\<close>

text \<open>
  Strings are sequences of UTF-16 code units, as in the source language; a code unit is a
  natural number. \<open>str\<close> turns an ASCII literal into such a string.
\<close>

type_synonym ustring = "nat list"

definition str :: "string \<Rightarrow> ustring" where
  "str s = map of_char s"

text \<open>
  The class of an object is the prototype that a literal or a constructor gave it:
  \<open>Object.prototype\<close> for a plain object, \<open>Error.prototype\<close> for a native \<open>Error\<close>,
  \<open>AppError.prototype\<close> for an instance of \<open>AppError\<close> (which extends \<open>Error\<close>). It
  decides \<open>instanceof\<close> and which own properties are enumerable.
\<close>

datatype ocls = Plain | NativeError | AppErrorInst

text \<open>
  Arrays, objects and dates carry the flag set by \<open>Object.freeze\<close>. The properties of an
  object are kept in the order of their creation (the language lists the keys that are
  array indices first; the model does not reorder them). A \<open>Date\<close> holds its time value,
  \<open>None\<close> for an invalid date. Numbers are the integers and \<open>NaN\<close>.

  \<open>JInherit p f ps\<close> is an object whose prototype is the value \<open>p\<close>: an object or an
  array, or no prototype at all when \<open>p\<close> is \<open>null\<close>. \<open>Object.create(p)\<close> makes such an
  object, and so does an assignment to \<open>__proto__\<close>.

  The values are data: there are no functions, symbols or big integers among them, and
  no property is an accessor of the program's own.
\<close>

datatype jsval =
    JUndefined
  | JNull
  | JBool bool
  | JNum int
  | JNaN
  | JStr ustring
  | JDate bool "int option"
  | JArr bool "jsval list"
  | JObj ocls bool "(ustring \<times> jsval) list"
  | JInherit jsval bool "(ustring \<times> jsval) list"

definition isNullish :: "jsval \<Rightarrow> bool" where
  "isNullish v = (v = JUndefined \<or> v = JNull)"

text \<open>\<open>a ?? b\<close>\<close>

definition nc :: "jsval \<Rightarrow> jsval \<Rightarrow> jsval" where
  "nc a b = (if isNullish a then b else a)"

text \<open>Truthiness, as tested by \<open>!v\<close>, \<open>v ? a : b\<close> and \<open>filter(Boolean)\<close>.\<close>

fun truthy :: "jsval \<Rightarrow> bool" where
  "truthy JUndefined = False"
| "truthy JNull = False"
| "truthy (JBool b) = b"
| "truthy (JNum n) = (n \<noteq> 0)"
| "truthy JNaN = False"
| "truthy (JStr s) = (s \<noteq> [])"
| "truthy (JDate f t) = True"
| "truthy (JArr f xs) = True"
| "truthy (JObj c f ps) = True"
| "truthy (JInherit p f ps) = True"

fun typeof :: "jsval \<Rightarrow> string" where
  "typeof JUndefined = ''undefined''"
| "typeof JNull = ''object''"
| "typeof (JBool b) = ''boolean''"
| "typeof (JNum n) = ''number''"
| "typeof JNaN = ''number''"
| "typeof (JStr s) = ''string''"
| "typeof (JDate f t) = ''object''"
| "typeof (JArr f xs) = ''object''"
| "typeof (JObj c f ps) = ''object''"
| "typeof (JInherit p f ps) = ''object''"

fun isArray :: "jsval \<Rightarrow> bool" where
  "isArray (JArr f xs) = True"
| "isArray v = False"

text \<open>The decimal digits of an array index, as a property name.\<close>

fun decimal :: "nat \<Rightarrow> ustring" where
  "decimal n = (if n < 10 then [48 + n] else decimal (n div 10) @ [48 + n mod 10])"

declare decimal.simps [simp del]

text \<open>The element of an array that a property name designates, if it is an index.\<close>

definition elementAt :: "jsval list \<Rightarrow> ustring \<Rightarrow> jsval option" where
  "elementAt xs k =
     (case find (\<lambda>i. decimal i = k) [0..<length xs] of None \<Rightarrow> None | Some i \<Rightarrow> Some (xs ! i))"

text \<open>
  The built-in prototypes are not values of the model. Where the program can get hold of
  one, by reading the key \<open>__proto__\<close> of an object that inherits the accessor of
  \<open>Object.prototype\<close>, the model gives an object that answers every read, test and
  spread that \<open>deepMerge\<close> applies to its target as the prototype does: no enumerable
  property, nothing but functions and strings to inherit, and the right prototype of its
  own. \<open>Object.prototype\<close> has none, \<open>Error.prototype\<close> and \<open>Date.prototype\<close> have
  \<open>Object.prototype\<close>, \<open>AppError.prototype\<close> has \<open>Error.prototype\<close>, and
  \<open>Array.prototype\<close> is an empty array.
\<close>

definition objectPrototype :: jsval where
  "objectPrototype = JInherit JNull False []"

definition errorPrototype :: jsval where
  "errorPrototype = JObj Plain False []"

definition appErrorPrototype :: jsval where
  "appErrorPrototype = JInherit (JObj Plain False []) False []"

definition datePrototype :: jsval where
  "datePrototype = JObj Plain False []"

definition arrayPrototype :: jsval where
  "arrayPrototype = JArr False []"

text \<open>What the accessor \<open>__proto__\<close> returns for an object.\<close>

fun prototypeOf :: "jsval \<Rightarrow> jsval" where
  "prototypeOf (JObj Plain f ps) = objectPrototype"
| "prototypeOf (JObj NativeError f ps) = errorPrototype"
| "prototypeOf (JObj AppErrorInst f ps) = appErrorPrototype"
| "prototypeOf (JInherit p f ps) = p"
| "prototypeOf (JDate f t) = datePrototype"
| "prototypeOf (JArr f xs) = arrayPrototype"
| "prototypeOf v = JUndefined"

text \<open>
  The read of the key \<open>k\<close> that has gone up the prototype chain as far as \<open>v\<close>: \<open>v\<close>
  answers with its own property, an array with an element or its length, and otherwise
  the read goes on to the prototype of \<open>v\<close>. A chain that ends in \<open>null\<close> gives
  \<open>undefined\<close>. A chain that reaches a built-in prototype gives, for \<open>__proto__\<close>, what
  the accessor returns for the object that was read (\<open>r\<close>), and \<open>undefined\<close> for every
  other key: what the built-in prototypes hold besides are functions, which are not
  values of the model (no test of the source tells one from \<open>undefined\<close>, except that
  \<open>DEFAULT_LEVEL_BY_TYPE[type]\<close> is a function when \<open>type\<close> names one), and the \<open>name\<close>
  and \<open>message\<close> of \<open>Error.prototype\<close>, which a native error of the model holds itself.
\<close>

fun inherited :: "jsval \<Rightarrow> jsval \<Rightarrow> ustring \<Rightarrow> jsval" where
  "inherited r (JObj c f ps) k =
     (case map_of ps k of
        Some x \<Rightarrow> x
      | None \<Rightarrow> if k = str ''__proto__'' then r else JUndefined)"
| "inherited r (JInherit p f ps) k =
     (case map_of ps k of Some x \<Rightarrow> x | None \<Rightarrow> inherited r p k)"
| "inherited r (JArr f xs) k =
     (case elementAt xs k of
        Some x \<Rightarrow> x
      | None \<Rightarrow>
          if k = str ''length'' then JNum (int (length xs))
          else if k = str ''__proto__'' then r
          else JUndefined)"
| "inherited r (JDate f t) k = (if k = str ''__proto__'' then r else JUndefined)"
| "inherited r v k = JUndefined"

text \<open>
  \<open>v[k]\<close> and \<open>v.k\<close> on a value that is neither \<open>null\<close> nor \<open>undefined\<close>. A primitive
  answers \<open>undefined\<close>: the source reads no property that the prototype of a primitive
  holds. A native error keeps \<open>name\<close>, \<open>message\<close> and \<open>stack\<close> among its properties.
\<close>

definition getProp :: "jsval \<Rightarrow> ustring \<Rightarrow> jsval" where
  "getProp v k = inherited (prototypeOf v) v k"

text \<open>\<open>v?.k\<close>\<close>

definition optGet :: "jsval \<Rightarrow> ustring \<Rightarrow> jsval" where
  "optGet v k = (if isNullish v then JUndefined else getProp v k)"

text \<open>
  \<open>instanceof Error\<close>, \<open>instanceof AppError\<close>, \<open>instanceof Date\<close>: whether the
  prototype of the class is on the chain of the value.
\<close>

fun instanceofError :: "jsval \<Rightarrow> bool" where
  "instanceofError (JObj c f ps) = (c = NativeError \<or> c = AppErrorInst)"
| "instanceofError (JInherit p f ps) = instanceofError p"
| "instanceofError v = False"

fun instanceofAppError :: "jsval \<Rightarrow> bool" where
  "instanceofAppError (JObj c f ps) = (c = AppErrorInst)"
| "instanceofAppError (JInherit p f ps) = instanceofAppError p"
| "instanceofAppError v = False"

fun instanceofDate :: "jsval \<Rightarrow> bool" where
  "instanceofDate (JDate f t) = True"
| "instanceofDate (JInherit p f ps) = instanceofDate p"
| "instanceofDate v = False"

text \<open>
  Which own properties \<open>Object.keys\<close> and the spread \<open>{...v}\<close> see: all of a plain
  object; of a native error neither \<open>name\<close> (inherited) nor \<open>message\<close> and \<open>stack\<close>
  (not enumerable); of an \<open>AppError\<close> all but \<open>message\<close> and \<open>stack\<close>.
\<close>

fun enumerable :: "ocls \<Rightarrow> ustring \<Rightarrow> bool" where
  "enumerable Plain k = True"
| "enumerable NativeError k = (k \<noteq> str ''name'' \<and> k \<noteq> str ''message'' \<and> k \<noteq> str ''stack'')"
| "enumerable AppErrorInst k = (k \<noteq> str ''message'' \<and> k \<noteq> str ''stack'')"

text \<open>
  The own enumerable properties copied by \<open>{...v}\<close> and listed by \<open>Object.keys(v)\<close>:
  an array and a string contribute their indices, any other primitive and a date nothing.
\<close>

fun spreadProps :: "jsval \<Rightarrow> (ustring \<times> jsval) list" where
  "spreadProps (JObj c f ps) = filter (\<lambda>p. enumerable c (fst p)) ps"
| "spreadProps (JInherit p f ps) = ps"
| "spreadProps (JArr f xs) = map (\<lambda>i. (decimal i, xs ! i)) [0..<length xs]"
| "spreadProps (JStr s) = map (\<lambda>i. (decimal i, JStr [s ! i])) [0..<length s]"
| "spreadProps v = []"

text \<open>
  The write of an own property on a property list: an existing property keeps its place,
  a new one goes last.
\<close>

fun setKey :: "ustring \<Rightarrow> 'a \<Rightarrow> (ustring \<times> 'a) list \<Rightarrow> (ustring \<times> 'a) list" where
  "setKey k v [] = [(k, v)]"
| "setKey k v (p # ps) = (if fst p = k then (k, v) # ps else p # setKey k v ps)"

text \<open>
  Whether a write of \<open>__proto__\<close> that has gone up the chain as far as \<open>v\<close> reaches the
  accessor of \<open>Object.prototype\<close>: no object on the way holds a property of that name,
  and the chain does not end in \<open>null\<close>.
\<close>

fun setterReached :: "jsval \<Rightarrow> bool" where
  "setterReached (JObj c f ps) = (str ''__proto__'' \<notin> fst ` set ps)"
| "setterReached (JInherit p f ps) = (str ''__proto__'' \<notin> fst ` set ps \<and> setterReached p)"
| "setterReached (JArr f xs) = True"
| "setterReached (JDate f t) = True"
| "setterReached v = False"

text \<open>
  \<open>r[k] = v\<close> on an object \<open>r\<close> that is not frozen. An own property is overwritten.
  The key \<open>__proto__\<close>, when \<open>r\<close> does not own it and the write reaches the accessor,
  adds no property: it makes \<open>v\<close> the prototype of \<open>r\<close> if \<open>v\<close> is an object, an array
  or \<open>null\<close>, and does nothing otherwise. Every other write adds an own property. (The
  language refuses, with a \<open>TypeError\<close>, to add a property that a frozen object up the
  chain holds; the model adds it.)
\<close>

fun put :: "jsval \<Rightarrow> ustring \<Rightarrow> jsval \<Rightarrow> jsval" where
  "put (JObj c f ps) k v =
     (if k = str ''__proto__'' \<and> k \<notin> fst ` set ps then
        (if typeof v = ''object'' then JInherit v f ps else JObj c f ps)
      else JObj c f (setKey k v ps))"
| "put (JInherit p f ps) k v =
     (if k = str ''__proto__'' \<and> k \<notin> fst ` set ps \<and> setterReached p then
        (if typeof v = ''object'' then JInherit v f ps else JInherit p f ps)
      else JInherit p f (setKey k v ps))"
| "put r k v = r"

text \<open>\<open>Object.freeze\<close> and \<open>Object.isFrozen\<close> (a primitive counts as frozen).\<close>

fun freeze :: "jsval \<Rightarrow> jsval" where
  "freeze (JArr f xs) = JArr True xs"
| "freeze (JObj c f ps) = JObj c True ps"
| "freeze (JInherit p f ps) = JInherit p True ps"
| "freeze (JDate f t) = JDate True t"
| "freeze v = v"

fun isFrozen :: "jsval \<Rightarrow> bool" where
  "isFrozen (JArr f xs) = f"
| "isFrozen (JObj c f ps) = f"
| "isFrozen (JInherit p f ps) = f"
| "isFrozen (JDate f t) = f"
| "isFrozen v = True"

text \<open>
  Deep immutability: the value and every array and object reachable from it through
  properties and elements are frozen. A date is neither a mapping nor a sequence and
  counts as a leaf.
\<close>

function deepFrozen :: "jsval \<Rightarrow> bool" where
  "deepFrozen (JArr f xs) = (f \<and> (\<forall>x\<in>set xs. deepFrozen x))"
| "deepFrozen (JObj c f ps) = (f \<and> (\<forall>p\<in>set ps. deepFrozen (snd p)))"
| "deepFrozen (JInherit q f ps) = (f \<and> (\<forall>p\<in>set ps. deepFrozen (snd p)))"
| "deepFrozen (JDate f t) = True"
| "deepFrozen JUndefined = True"
| "deepFrozen JNull = True"
| "deepFrozen (JBool b) = True"
| "deepFrozen (JNum n) = True"
| "deepFrozen JNaN = True"
| "deepFrozen (JStr s) = True"
  by pat_completeness auto
termination
proof -
  have less: "size (snd p) < size (JObj c f ps)" if "p \<in> set ps" for p c f ps
    using that by (induction ps) auto
  have less'': "size (snd p) < size (JInherit q f ps)" if "p \<in> set ps" for p q f ps
    using that by (induction ps) auto
  have less': "size x < size (JArr f xs)" if "x \<in> set xs" for x f xs
    using that by (induction xs) auto
  show ?thesis
    by (relation "measure size") (auto dest: less less' less'')
qed

text \<open>
  The assignment \<open>v.k1.k2...kn = x\<close>. The last step writes the property \<open>kn\<close> (an index
  or the next free index, for an array) unless its holder is frozen, in which case nothing
  happens; the steps before it read own properties, so a change below a frozen object is
  seen through it. A step that cannot be taken leaves the value as it is.
\<close>

fun assign :: "jsval \<Rightarrow> ustring list \<Rightarrow> jsval \<Rightarrow> jsval" where
  "assign (JObj c f ps) [k] x = (if f then JObj c f ps else put (JObj c f ps) k x)"
| "assign (JObj c f ps) (k # k' # ks) x =
     (case map_of ps k of
        None \<Rightarrow> JObj c f ps
      | Some child \<Rightarrow> JObj c f (setKey k (assign child (k' # ks) x) ps))"
| "assign (JInherit p f ps) [k] x = (if f then JInherit p f ps else put (JInherit p f ps) k x)"
| "assign (JInherit p f ps) (k # k' # ks) x =
     (case map_of ps k of
        None \<Rightarrow> JInherit p f ps
      | Some child \<Rightarrow> JInherit p f (setKey k (assign child (k' # ks) x) ps))"
| "assign (JArr f xs) [k] x =
     (case find (\<lambda>i. decimal i = k) [0..<Suc (length xs)] of
        None \<Rightarrow> JArr f xs
      | Some i \<Rightarrow>
          if f then JArr f xs
          else if i < length xs then JArr f (xs[i := x])
          else JArr f (xs @ [x]))"
| "assign (JArr f xs) (k # k' # ks) x =
     (case find (\<lambda>i. decimal i = k) [0..<length xs] of
        None \<Rightarrow> JArr f xs
      | Some i \<Rightarrow> JArr f (xs[i := assign (xs ! i) (k' # ks) x]))"
| "assign v ks x = v"

text \<open>A parameter with a default value takes it when the argument is \<open>undefined\<close>.\<close>

definition dflt :: "jsval \<Rightarrow> jsval \<Rightarrow> jsval" where
  "dflt v d = (if v = JUndefined then d else v)"

text \<open>
  The errors raised. All are \<open>TypeError\<close>s. The first seven are thrown by the builder; each
  stands for the \<open>throw\<close> statement of one guard, whatever the message. \<open>NullAccess\<close> is
  raised by the platform when a property of \<open>null\<close> or \<open>undefined\<close> is read, and
  \<open>NotConvertible\<close> when a value that has no primitive value is converted to a string or
  to a number.
\<close>

datatype jserr =
    InvalidCode | InvalidType | InvalidLevel | InvalidReason | InvalidMetadata
  | InvalidOriginalError | InvalidTimestamp | NullAccess | NotConvertible

text \<open>
  What the code takes from the platform: the clock (\<open>Date.now()\<close>, \<open>new Date()\<close>), the
  date parser, the digits of a number and the text of a date, the string that
  \<open>Array.prototype.join\<close> makes of an object that inherits from an array without being
  one (\<open>None\<close> when it throws), and the stack trace captured at the call site.
\<close>

record env =
  now :: int
  parseDate :: "ustring \<Rightarrow> int option"
  toStr :: "jsval \<Rightarrow> ustring"
  joined :: "jsval \<Rightarrow> ustring option"
  capturedStack :: jsval

text \<open>The results of a sequence of steps, or the first error among them.\<close>

fun collect :: "('e + 'a) list \<Rightarrow> 'e + 'a list" where
  "collect [] = Inr []"
| "collect (x # xs) =
     (case x of
        Inl e \<Rightarrow> Inl e
      | Inr y \<Rightarrow> (case collect xs of Inl e \<Rightarrow> Inl e | Inr ys \<Rightarrow> Inr (y # ys)))"

text \<open>Strings joined by commas, as \<open>Array.prototype.join\<close> does.\<close>

fun commaJoin :: "ustring list \<Rightarrow> ustring" where
  "commaJoin [] = []"
| "commaJoin [s] = s"
| "commaJoin (s # t # ss) = s @ str '','' @ commaJoin (t # ss)"

text \<open>
  The conversion of an object to a primitive value calls the method \<open>toString\<close> that the
  object has or inherits (\<open>valueOf\<close> never helps: the one of \<open>Object.prototype\<close>
  returns the object). No property of the model holds a function, so a property named
  \<open>toString\<close>, own or met on the way up the chain, leaves nothing to call, and so does a
  chain that ends in \<open>null\<close>. Otherwise the method is the one of the first built-in
  prototype on the chain.
\<close>

datatype toStringMethod =
    NoToString | ObjectToString | ErrorToString | AppErrorToString | ArrayToString | DateToString

fun toStringOf :: "jsval \<Rightarrow> toStringMethod" where
  "toStringOf (JObj c f ps) =
     (if str ''toString'' \<in> fst ` set ps then NoToString
      else (case c of
              Plain \<Rightarrow> ObjectToString
            | NativeError \<Rightarrow> ErrorToString
            | AppErrorInst \<Rightarrow> AppErrorToString))"
| "toStringOf (JInherit p f ps) =
     (if str ''toString'' \<in> fst ` set ps then NoToString else toStringOf p)"
| "toStringOf (JArr f xs) = ArrayToString"
| "toStringOf (JDate f t) = DateToString"
| "toStringOf v = NoToString"

fun isDate :: "jsval \<Rightarrow> bool" where
  "isDate (JDate f t) = True"
| "isDate v = False"

fun elems :: "jsval \<Rightarrow> jsval list" where
  "elems (JArr f xs) = xs"
| "elems v = []"

text \<open>
  \<open>tpl\<close> is the string conversion, as in a template literal, in the \<open>Error\<close>
  constructor, in \<open>Date.parse\<close> and in a computed property name. It calls the method
  found: \<open>Object.prototype.toString\<close>; \<open>Error.prototype.toString\<close>, which converts the
  \<open>name\<close> and the \<open>message\<close> of the object; \<open>Array.prototype.toString\<close>, which joins
  the conversions of the elements that are neither \<open>null\<close> nor \<open>undefined\<close>;
  \<open>Date.prototype.toString\<close>, which throws on what is not a date; and, for an
  \<open>AppError\<close>, the method of the class.

  \<open>toString\<close> is that method, \<open>AppError.prototype.toString\<close> of app-error.js. Reading
  \<open>this.messages.user.en\<close> throws when \<open>messages\<close> or \<open>messages.user\<close> is \<open>null\<close> or
  \<open>undefined\<close>.
\<close>

function tpl :: "env \<Rightarrow> jsval \<Rightarrow> jserr + ustring"
  and toString :: "env \<Rightarrow> jsval \<Rightarrow> jserr + ustring" where
  "tpl E v =
     (if typeof v \<noteq> ''object'' \<or> v = JNull then
        (case v of
           JStr s \<Rightarrow> Inr s
         | JUndefined \<Rightarrow> Inr (str ''undefined'')
         | JNull \<Rightarrow> Inr (str ''null'')
         | JBool b \<Rightarrow> Inr (if b then str ''true'' else str ''false'')
         | JNaN \<Rightarrow> Inr (str ''NaN'')
         | _ \<Rightarrow> Inr (toStr E v))
      else
        (case toStringOf v of
           NoToString \<Rightarrow> Inl NotConvertible
         | ObjectToString \<Rightarrow> Inr (str ''[object Object]'')
         | DateToString \<Rightarrow> (if isDate v then Inr (toStr E v) else Inl NotConvertible)
         | ArrayToString \<Rightarrow>
             (if isArray v then
                (case collect (map (\<lambda>x. if isNullish x then Inr [] else tpl E x) (elems v)) of
                   Inl e \<Rightarrow> Inl e
                 | Inr ss \<Rightarrow> Inr (commaJoin ss))
              else (case joined E v of None \<Rightarrow> Inl NotConvertible | Some s \<Rightarrow> Inr s))
         | ErrorToString \<Rightarrow>
             (let name = getProp v (str ''name'');
                  msg = getProp v (str ''message'')
              in case (if name = JUndefined then Inr (str ''Error'') else tpl E name) of
                   Inl e \<Rightarrow> Inl e
                 | Inr n \<Rightarrow>
                     (case (if msg = JUndefined then Inr [] else tpl E msg) of
                        Inl e \<Rightarrow> Inl e
                      | Inr m \<Rightarrow>
                          Inr (if n = [] then m else if m = [] then n else n @ str '': '' @ m)))
         | AppErrorToString \<Rightarrow> toString E v))"
| "toString E this =
     (let messages = getProp this (str ''messages'')
      in if isNullish messages then Inl NullAccess
         else
           (let user = getProp messages (str ''user'')
            in if isNullish user then Inl NullAccess
               else
                 (let userMessage = nc (getProp user (str ''en''))
                                      (nc (getProp user (str ''fa'')) (JStr []))
                  in case tpl E (getProp this (str ''name'')) of
                       Inl e \<Rightarrow> Inl e
                     | Inr n \<Rightarrow>
                         (case tpl E (getProp this (str ''code'')) of
                            Inl e \<Rightarrow> Inl e
                          | Inr c \<Rightarrow>
                              (case tpl E userMessage of
                                 Inl e \<Rightarrow> Inl e
                               | Inr m \<Rightarrow> Inr (n @ str ''('' @ c @ str ''): '' @ m))))))"
  by pat_completeness auto
termination
proof -
  have own: "size x \<le> size_list (size_prod (\<lambda>x. 0) size) ps" if "map_of ps k = Some x"
    for ps :: "(ustring \<times> jsval) list" and k x
    using that by (induction ps) (auto split: if_splits)
  have elt: "size x \<le> size_list size xs" if "elementAt xs k = Some x" for xs k x
  proof -
    from that obtain i where "i < length xs" "x = xs ! i"
      by (auto simp: elementAt_def find_Some_iff split: option.splits)
    then have "x \<in> set xs"
      by simp
    then show ?thesis
      by (induction xs) auto
  qed
  have inh: "inherited r h k = JUndefined \<or> size (inherited r h k) < size h"
    if "k \<noteq> str ''__proto__''" for r h k
    using that
  proof (induction r h k rule: inherited.induct)
    case (1 r c f ps k)
    then show ?case
      using own [of ps k] by (auto split: option.splits simp: less_Suc_eq_le)
  next
    case (2 r p f ps k)
    then show ?case
      using own [of ps k] by (auto split: option.splits simp: less_Suc_eq_le)
  next
    case (3 r f xs k)
    then show ?case
      using elt [of xs k] by (auto split: option.splits simp: less_Suc_eq_le)
  qed auto
  have sub: "getProp v k = JUndefined \<or> size (getProp v k) < size v"
    if "k \<noteq> str ''__proto__''" for v k
    using inh [OF that] by (simp add: getProp_def)
  have p: "str ''name'' \<noteq> str ''__proto__''" "str ''message'' \<noteq> str ''__proto__''"
    "str ''messages'' \<noteq> str ''__proto__''" "str ''user'' \<noteq> str ''__proto__''"
    "str ''en'' \<noteq> str ''__proto__''" "str ''fa'' \<noteq> str ''__proto__''"
    "str ''code'' \<noteq> str ''__proto__''"
    by (simp_all add: str_def)
  have el: "size x < size v" if "x \<in> set (elems v)" for x v
    using that by (cases v) (auto simp: less_Suc_eq_le size_list_estimation')
  have deep: "size u < size this"
    if "\<not> isNullish (getProp this (str ''messages''))"
      "\<not> isNullish (getProp (getProp this (str ''messages'')) (str ''user''))"
      "u = nc (getProp (getProp (getProp this (str ''messages'')) (str ''user'')) (str ''en''))
             (nc (getProp (getProp (getProp this (str ''messages'')) (str ''user'')) (str ''fa''))
                (JStr []))"
    for u this
  proof -
    let ?m = "getProp this (str ''messages'')"
    let ?u = "getProp ?m (str ''user'')"
    from that(1) sub [OF p(3), of this] have 1: "size ?m < size this"
      by (auto simp: isNullish_def)
    from that(2) sub [OF p(4), of ?m] have 2: "size ?u < size ?m"
      by (auto simp: isNullish_def)
    from sub [OF p(5), of ?u] sub [OF p(6), of ?u] have "size u \<le> size ?u"
      unfolding that(3) by (auto simp: nc_def isNullish_def)
    with 1 2 show ?thesis
      by simp
  qed
  have top: "size (getProp this k) < size this"
    if "\<not> isNullish (getProp this (str ''messages''))" "k \<noteq> str ''__proto__''" for this k
  proof -
    from that(1) sub [OF p(3), of this] have "0 < size this"
      by (auto simp: isNullish_def)
    with sub [OF that(2), of this] show ?thesis
      by auto
  qed
  show ?thesis
    apply (relation "measure (\<lambda>x. case x of Inl (E, v) \<Rightarrow> 2 * size v + 1
                                   | Inr (E, this) \<Rightarrow> 2 * size this)")
           apply (auto dest: el)
    subgoal for v
      using sub [OF p(1), of v] by auto
    subgoal for E v
      using sub [OF p(2), of v] by auto
    subgoal for this
      using top [OF _ p(1), of this] by simp
    subgoal for E this
      using top [OF _ p(7), of this] by simp
    subgoal for E this
      using deep [of this] by simp
    done
qed

declare tpl.simps [simp del] toString.simps [simp del]

text \<open>
  \<open>new Date(v).getTime()\<close>, \<open>None\<close> for \<open>NaN\<close>. An object is first converted to a
  primitive value, a string for every object of the model; a date gives its time value.
\<close>

fun dateTime :: "env \<Rightarrow> jsval \<Rightarrow> jserr + int option" where
  "dateTime E (JDate f t) = Inr t"
| "dateTime E (JNum n) = Inr (if \<bar>n\<bar> \<le> 8640000000000000 then Some n else None)"
| "dateTime E JNaN = Inr None"
| "dateTime E JUndefined = Inr None"
| "dateTime E JNull = Inr (Some 0)"
| "dateTime E (JBool b) = Inr (Some (if b then 1 else 0))"
| "dateTime E (JStr s) = Inr (parseDate E s)"
| "dateTime E v = (case tpl E v of Inl e \<Rightarrow> Inl e | Inr s \<Rightarrow> Inr (parseDate E s))"

section \<open>constants.js\<close>

definition ERROR_TYPES :: "ustring list" where
  "ERROR_TYPES = map str [''network'', ''validation'', ''mapping'', ''permission'', ''component'',
     ''environment'', ''system'', ''unknown'', ''feature'']"

definition ERROR_LEVELS :: "ustring list" where
  "ERROR_LEVELS = map str [''debug'', ''info'', ''warn'', ''error'', ''fatal'']"

definition DEFAULT_LEVEL_BY_TYPE :: "(ustring \<times> jsval) list" where
  "DEFAULT_LEVEL_BY_TYPE =
     [(str ''network'', JStr (str ''error'')),
      (str ''validation'', JStr (str ''warn'')),
      (str ''mapping'', JStr (str ''error'')),
      (str ''permission'', JStr (str ''warn'')),
      (str ''component'', JStr (str ''error'')),
      (str ''environment'', JStr (str ''fatal'')),
      (str ''system'', JStr (str ''error'')),
      (str ''unknown'', JStr (str ''error'')),
      (str ''feature'', JStr (str ''info''))]"

definition default_fa :: ustring where
  "default_fa = [1582, 1591, 1575, 1740, 1740, 32, 1585, 1582, 32, 1583, 1575, 1583, 1607, 32,
     1575, 1587, 1578]"

definition default_en :: ustring where
  "default_en = str ''An unexpected error occurred''"

definition DEFAULT_MESSAGES_user :: jsval where
  "DEFAULT_MESSAGES_user =
     JObj Plain True [(str ''fa'', JStr default_fa), (str ''en'', JStr default_en)]"

definition DEFAULT_MESSAGES_original :: jsval where
  "DEFAULT_MESSAGES_original =
     JObj Plain True [(str ''fa'', JStr default_fa), (str ''en'', JStr default_en)]"

definition DEFAULT_MESSAGES :: jsval where
  "DEFAULT_MESSAGES =
     JObj Plain True [(str ''user'', DEFAULT_MESSAGES_user), (str ''original'', DEFAULT_MESSAGES_original)]"

section \<open>utils/localization.js\<close>

definition cloneFallback :: "jsval \<Rightarrow> jsval" where
  "cloneFallback fallback0 =
     (let fallback = (if fallback0 = JUndefined then JObj Plain False [] else fallback0)
      in JObj Plain False
           [(str ''fa'', nc (optGet fallback (str ''fa'')) JNull),
            (str ''en'', nc (optGet fallback (str ''en'')) JNull)])"

definition ensureLocalizedText :: "jsval \<Rightarrow> jsval \<Rightarrow> jsval" where
  "ensureLocalizedText v fallback0 =
     (let normalizedFallback = cloneFallback fallback0
      in if isNullish v then normalizedFallback
         else if typeof v = ''string'' then JObj Plain False [(str ''fa'', v), (str ''en'', v)]
         else if typeof v = ''object'' then
           (let fa = nc (getProp v (str ''fa''))
                       (nc (getProp v (str ''en'')) (getProp normalizedFallback (str ''fa'')));
                en = nc (getProp v (str ''en''))
                       (nc (getProp v (str ''fa'')) (getProp normalizedFallback (str ''en'')))
            in JObj Plain False [(str ''fa'', fa), (str ''en'', en)])
         else normalizedFallback)"

definition cloneLocalizedMessages :: "jsval \<Rightarrow> jserr + jsval" where
  "cloneLocalizedMessages messages0 =
     (let messages = dflt messages0 (JObj Plain False [])
      in if messages = JNull then Inl NullAccess
         else Inr (JObj Plain False
           [(str ''user'', ensureLocalizedText (getProp messages (str ''user'')) JUndefined),
            (str ''original'', ensureLocalizedText (getProp messages (str ''original'')) JUndefined)]))"

section \<open>app-error.js\<close>

definition toArray :: "jsval \<Rightarrow> jsval list" where
  "toArray v = (if isNullish v then [] else (case v of JArr f xs \<Rightarrow> xs | _ \<Rightarrow> [v]))"

text \<open>
  \<open>normalizeMessages(messages = {})\<close>. \<open>null\<close> does not take the default, and reading
  \<open>messages.user\<close> from it throws.
\<close>

definition normalizeMessages :: "jsval \<Rightarrow> jserr + jsval" where
  "normalizeMessages messages0 =
     (let messages = dflt messages0 (JObj Plain False [])
      in if typeof messages = ''string'' then
           Inr (JObj Plain False
             [(str ''user'', ensureLocalizedText messages DEFAULT_MESSAGES_user),
              (str ''original'', ensureLocalizedText messages DEFAULT_MESSAGES_original)])
         else if messages = JNull then Inl NullAccess
         else
           (let normalizedUser =
                  ensureLocalizedText
                    (nc (getProp messages (str ''user'')) (getProp messages (str ''original'')))
                    DEFAULT_MESSAGES_user;
                normalizedOriginal =
                  ensureLocalizedText
                    (nc (getProp messages (str ''original'')) (getProp messages (str ''user'')))
                    DEFAULT_MESSAGES_original
            in Inr (JObj Plain False
                 [(str ''user'', normalizedUser), (str ''original'', normalizedOriginal)])))"

text \<open>
  The function mapped over the breadcrumbs. \<open>Date.now()\<close> is read from the one clock
  value of the environment. \<open>new Date(timestamp)\<close> throws when the timestamp has no
  primitive value.
\<close>

definition normalizeBreadcrumb :: "env \<Rightarrow> jsval \<Rightarrow> jserr + jsval" where
  "normalizeBreadcrumb E breadcrumb =
     (if \<not> truthy breadcrumb then Inr JNull
      else if typeof breadcrumb = ''string'' then
        Inr (freeze (JObj Plain False
          [(str ''message'', ensureLocalizedText breadcrumb DEFAULT_MESSAGES_user),
           (str ''category'', JNull),
           (str ''level'', JNull),
           (str ''data'', JNull),
           (str ''timestamp'', JNum (now E))]))
      else
        (let message = getProp breadcrumb (str ''message'');
             category = getProp breadcrumb (str ''category'');
             level = getProp breadcrumb (str ''level'');
             data = getProp breadcrumb (str ''data'');
             timestamp = getProp breadcrumb (str ''timestamp'')
         in if \<not> truthy message then Inr JNull
            else
              (case (if truthy timestamp then dateTime E timestamp else Inr (Some (now E))) of
                 Inl e \<Rightarrow> Inl e
               | Inr timeValue \<Rightarrow>
                   Inr (freeze (JObj Plain False
                     [(str ''message'', ensureLocalizedText message DEFAULT_MESSAGES_user),
                      (str ''category'', nc category JNull),
                      (str ''level'', nc level JNull),
                      (str ''data'', nc data JNull),
                      (str ''timestamp'',
                         JNum (case timeValue of None \<Rightarrow> now E | Some t \<Rightarrow> t))])))))"

text \<open>
  \<open>toArray(breadcrumbs).map(...).filter(Boolean)\<close>: the entries are normalized in order,
  and the first one that throws ends the call.
\<close>

definition normalizeBreadcrumbs :: "env \<Rightarrow> jsval \<Rightarrow> jserr + jsval list" where
  "normalizeBreadcrumbs E breadcrumbs0 =
     (let breadcrumbs = dflt breadcrumbs0 (JArr False [])
      in case collect (map (normalizeBreadcrumb E) (toArray breadcrumbs)) of
           Inl e \<Rightarrow> Inl e
         | Inr bs \<Rightarrow> Inr (filter truthy bs))"

text \<open>
  \<open>k in v\<close>, for a value whose \<open>typeof\<close> is \<open>object\<close> and that is truthy, and a key
  that \<open>Object.prototype\<close> does not hold (the source asks for \<open>message\<close>): an own
  property, or one found up the chain; \<open>Error.prototype\<close> holds \<open>name\<close> and
  \<open>message\<close>.
\<close>

fun hasProp :: "ustring \<Rightarrow> jsval \<Rightarrow> bool" where
  "hasProp k (JObj c f ps) =
     (k \<in> fst ` set ps \<or> (c \<noteq> Plain \<and> (k = str ''name'' \<or> k = str ''message'')))"
| "hasProp k (JInherit p f ps) = (k \<in> fst ` set ps \<or> hasProp k p)"
| "hasProp k (JArr f xs) = (elementAt xs k \<noteq> None \<or> k = str ''length'')"
| "hasProp k v = False"

definition normalizeCause :: "jsval \<Rightarrow> jsval" where
  "normalizeCause cause =
     (if \<not> truthy cause then JNull
      else if instanceofAppError cause then cause
      else if instanceofError cause then
        freeze (JObj Plain False
          [(str ''name'', getProp cause (str ''name'')),
           (str ''message'',
              ensureLocalizedText (getProp cause (str ''message'')) DEFAULT_MESSAGES_original),
           (str ''stack'', getProp cause (str ''stack''))])
      else if typeof cause = ''object'' \<and> hasProp (str ''message'') cause then
        freeze (JObj Plain False
          (setKey (str ''message'')
             (ensureLocalizedText (getProp cause (str ''message'')) DEFAULT_MESSAGES_original)
             (spreadProps cause)))
      else cause)"

text \<open>
  \<open>DEFAULT_LEVEL_BY_TYPE[type]\<close>: the property named by the string conversion of
  \<open>type\<close>, which throws when \<open>type\<close> has no primitive value.
\<close>

definition defaultLevelOf :: "env \<Rightarrow> jsval \<Rightarrow> jserr + jsval" where
  "defaultLevelOf E type =
     (case tpl E type of
        Inl e \<Rightarrow> Inl e
      | Inr k \<Rightarrow> Inr (getProp (JObj Plain True DEFAULT_LEVEL_BY_TYPE) k))"

text \<open>
  The argument of \<open>super(...)\<close>: the display message, resolved from the \<open>user\<close> pair.
\<close>

definition baseMessage :: "jsval \<Rightarrow> jsval" where
  "baseMessage user =
     nc (getProp user (str ''en'')) (nc (getProp user (str ''fa'')) (JStr default_en))"

text \<open>
  Three expressions of the constructor that can throw. The \<open>Error\<close> constructor
  called by \<open>super(...)\<close> creates the property \<open>message\<close> from the string conversion
  of its argument, unless the argument is \<open>undefined\<close>. The level is
  \<open>level ?? DEFAULT_LEVEL_BY_TYPE[type] ?? ERROR_LEVELS.ERROR\<close>, which looks the type up
  only when no level is given. The timestamp is
  \<open>timestamp instanceof Date ? timestamp : new Date(timestamp)\<close>.
\<close>

definition errorMessage :: "env \<Rightarrow> jsval \<Rightarrow> jserr + (ustring \<times> jsval) list" where
  "errorMessage E base =
     (if base = JUndefined then Inr []
      else (case tpl E base of Inl e \<Rightarrow> Inl e | Inr s \<Rightarrow> Inr [(str ''message'', JStr s)]))"

definition levelOf :: "env \<Rightarrow> jsval \<Rightarrow> jsval \<Rightarrow> jserr + jsval" where
  "levelOf E level type =
     (if isNullish level then
        (case defaultLevelOf E type of
           Inl e \<Rightarrow> Inl e
         | Inr d \<Rightarrow> Inr (nc d (JStr (str ''error''))))
      else Inr level)"

definition toDate :: "env \<Rightarrow> jsval \<Rightarrow> jserr + jsval" where
  "toDate E timestamp =
     (if instanceofDate timestamp then Inr timestamp
      else (case dateTime E timestamp of Inl e \<Rightarrow> Inl e | Inr t \<Rightarrow> Inr (JDate False t)))"

text \<open>
  The constructor, applied to the bag of fields. The result is the instance: an object of
  class \<open>AppErrorInst\<close> that holds \<open>message\<close>, the fields in the order of their
  assignment, and \<open>stack\<close>. The steps that can throw are taken in the order of the
  source: the normalization of the messages, the call of \<open>super\<close>, the level, the
  breadcrumbs, the timestamp.
\<close>

definition AppError_new :: "env \<Rightarrow> jsval \<Rightarrow> jserr + jsval" where
  "AppError_new E arg =
     (if isNullish arg then Inl NullAccess
      else
        (let code = getProp arg (str ''code'');
             type = getProp arg (str ''type'');
             level = getProp arg (str ''level'');
             messages = getProp arg (str ''messages'');
             reason = dflt (getProp arg (str ''reason'')) JNull;
             descriptions = dflt (getProp arg (str ''descriptions'')) (JArr False []);
             service = dflt (getProp arg (str ''service'')) JNull;
             metadata = dflt (getProp arg (str ''metadata'')) (JObj Plain False []);
             breadcrumbs = dflt (getProp arg (str ''breadcrumbs'')) (JArr False []);
             causes = dflt (getProp arg (str ''causes'')) (JArr False []);
             originalError = dflt (getProp arg (str ''originalError'')) JNull;
             timestamp = dflt (getProp arg (str ''timestamp'')) (JDate False (Some (now E)));
             stack = dflt (getProp arg (str ''stack'')) JNull
         in case normalizeMessages messages of
              Inl e \<Rightarrow> Inl e
            | Inr normalizedMessages \<Rightarrow>
              (let user = getProp normalizedMessages (str ''user'');
                   original = getProp normalizedMessages (str ''original'')
               in case errorMessage E (baseMessage user) of
                    Inl e \<Rightarrow> Inl e
                  | Inr message \<Rightarrow>
                    (case levelOf E level type of
                       Inl e \<Rightarrow> Inl e
                     | Inr lv \<Rightarrow>
                       (case normalizeBreadcrumbs E breadcrumbs of
                          Inl e \<Rightarrow> Inl e
                        | Inr bs \<Rightarrow>
                          (case toDate E timestamp of
                             Inl e \<Rightarrow> Inl e
                           | Inr ts \<Rightarrow>
                               Inr (freeze (JObj AppErrorInst False
                                 (message @
                                  [(str ''name'', JStr (str ''AppError'')),
                                   (str ''code'', code),
                                   (str ''type'', type),
                                   (str ''level'', lv),
                                   (str ''messages'',
                                      freeze (JObj Plain False
                                        [(str ''user'', freeze (JObj Plain False (spreadProps user))),
                                         (str ''original'',
                                            freeze (JObj Plain False (spreadProps original)))])),
                                   (str ''reason'', reason),
                                   (str ''descriptions'', freeze descriptions),
                                   (str ''service'',
                                      (if truthy service
                                       then freeze (JObj Plain False (spreadProps service))
                                       else JNull)),
                                   (str ''metadata'',
                                      freeze (JObj Plain False (spreadProps metadata))),
                                   (str ''breadcrumbs'', freeze (JArr False bs)),
                                   (str ''causes'',
                                      freeze (JArr False
                                        (case causes of
                                           JArr f xs \<Rightarrow> filter truthy (map normalizeCause xs)
                                         | _ \<Rightarrow> []))),
                                   (str ''originalError'', nc originalError JNull),
                                   (str ''timestamp'', ts),
                                   (str ''stack'',
                                      (if truthy stack then stack
                                       else if truthy (optGet originalError (str ''stack'')) then
                                         getProp originalError (str ''stack'')
                                       else capturedStack E))])))))))))"

text \<open>What \<open>new AppError(...)\<close> or \<open>build()\<close> returned.\<close>

definition returned :: "jserr + jsval \<Rightarrow> jsval" where
  "returned r = (case r of Inl err \<Rightarrow> JUndefined | Inr e \<Rightarrow> e)"

text \<open>The field \<open>k\<close> of what \<open>new AppError(...)\<close> or \<open>build()\<close> returned.\<close>

definition resultField :: "jserr + jsval \<Rightarrow> ustring \<Rightarrow> jsval" where
  "resultField r k = (case r of Inl err \<Rightarrow> JUndefined | Inr e \<Rightarrow> getProp e k)"

section \<open>utils/deep-merge.js\<close>

fun isObject :: "jsval \<Rightarrow> bool" where
  "isObject (JObj c f ps) = True"
| "isObject (JInherit p f ps) = True"
| "isObject (JDate f t) = True"
| "isObject v = False"

text \<open>
  The loop over \<open>Object.keys(source)\<close> is a fold over the enumerable properties of
  \<open>source\<close>, with \<open>result\<close> the accumulator. \<open>target[key]\<close> is a read through the
  prototype chain of \<open>target\<close>, and \<open>result[key] = ...\<close> a write that the key
  \<open>__proto__\<close> turns into a change of prototype.
\<close>

function deepMerge :: "jsval \<Rightarrow> jsval \<Rightarrow> jsval" where
  "deepMerge target source =
     (if \<not> isObject target \<or> \<not> isObject source then
        (if isObject source then JObj Plain False (spreadProps source) else source)
      else
        foldl
          (\<lambda>result p.
             (let key = fst p;
                  targetValue = getProp target key;
                  sourceValue = snd p
              in if isArray targetValue \<and> isArray sourceValue then
                   put result key (JArr False (elems targetValue @ elems sourceValue))
                 else if isObject targetValue \<and> isObject sourceValue then
                   put result key (deepMerge targetValue sourceValue)
                 else
                   put result key
                     (if isObject sourceValue then deepMerge (JObj Plain False []) sourceValue
                      else sourceValue)))
          (JObj Plain False (spreadProps target)) (spreadProps source))"
  by pat_completeness auto
termination
proof -
  have less: "size (snd p) \<le> size_list (size_prod (\<lambda>x. 0) size) ps" if "p \<in> set ps"
    for p :: "ustring \<times> jsval" and ps
    using that by (induction ps) auto
  have sub: "size (snd p) < size source" if "p \<in> set (spreadProps source)" "isObject source"
    for p source
  proof (cases source)
    case (JObj c f ps)
    with that less [of p ps] show ?thesis
      by auto
  next
    case (JInherit q f ps)
    with that less [of p ps] show ?thesis
      by auto
  qed (use that in auto)
  show ?thesis
    by (relation "measure (\<lambda>(target, source). size source)") (auto dest: sub)
qed

declare deepMerge.simps [simp del]

text \<open>
  \<open>deepMerge\<close> as it runs when no key is \<open>__proto__\<close>: every write adds or overwrites
  an own property, and \<open>result\<close> is its list of properties. The proofs work with this
  form; \<open>protoFree\<close> says of a source that no key of it, at any depth that the merge
  visits, is \<open>__proto__\<close>.
\<close>

function deepMergeOwn :: "jsval \<Rightarrow> jsval \<Rightarrow> jsval" where
  "deepMergeOwn target source =
     (if \<not> isObject target \<or> \<not> isObject source then
        (if isObject source then JObj Plain False (spreadProps source) else source)
      else
        JObj Plain False
          (foldl
             (\<lambda>result p.
                (let key = fst p;
                     targetValue = getProp target key;
                     sourceValue = snd p
                 in if isArray targetValue \<and> isArray sourceValue then
                      setKey key (JArr False (elems targetValue @ elems sourceValue)) result
                    else if isObject targetValue \<and> isObject sourceValue then
                      setKey key (deepMergeOwn targetValue sourceValue) result
                    else
                      setKey key
                        (if isObject sourceValue then deepMergeOwn (JObj Plain False []) sourceValue
                         else sourceValue)
                        result))
             (spreadProps target) (spreadProps source)))"
  by pat_completeness auto
termination
proof -
  have less: "size (snd p) \<le> size_list (size_prod (\<lambda>x. 0) size) ps" if "p \<in> set ps"
    for p :: "ustring \<times> jsval" and ps
    using that by (induction ps) auto
  have sub: "size (snd p) < size source" if "p \<in> set (spreadProps source)" "isObject source"
    for p source
  proof (cases source)
    case (JObj c f ps)
    with that less [of p ps] show ?thesis
      by auto
  next
    case (JInherit q f ps)
    with that less [of p ps] show ?thesis
      by auto
  qed (use that in auto)
  show ?thesis
    by (relation "measure (\<lambda>(target, source). size source)") (auto dest: sub)
qed

declare deepMergeOwn.simps [simp del]

function protoFree :: "jsval \<Rightarrow> bool" where
  "protoFree v =
     (isObject v \<longrightarrow>
        (\<forall>p\<in>set (spreadProps v). fst p \<noteq> str ''__proto__'' \<and> protoFree (snd p)))"
  by pat_completeness auto
termination
proof -
  have less: "size (snd p) \<le> size_list (size_prod (\<lambda>x. 0) size) ps" if "p \<in> set ps"
    for p :: "ustring \<times> jsval" and ps
    using that by (induction ps) auto
  have sub: "size (snd p) < size source" if "p \<in> set (spreadProps source)" "isObject source"
    for p source
  proof (cases source)
    case (JObj c f ps)
    with that less [of p ps] show ?thesis
      by auto
  next
    case (JInherit q f ps)
    with that less [of p ps] show ?thesis
      by auto
  qed (use that in auto)
  show ?thesis
    by (relation "measure size") (auto dest: sub)
qed

declare protoFree.simps [simp del]

text \<open>
  Two expressions of the loop body, named for the proofs: the copy made of a source value
  that meets no mapping in the target, and the value assigned to \<open>result[key]\<close>.
\<close>

definition cloneValue :: "jsval \<Rightarrow> jsval" where
  "cloneValue sourceValue =
     (if isObject sourceValue then deepMergeOwn (JObj Plain False []) sourceValue else sourceValue)"

definition mergeValue :: "jsval \<Rightarrow> ustring \<times> jsval \<Rightarrow> jsval" where
  "mergeValue target p =
     (let key = fst p;
          targetValue = getProp target key;
          sourceValue = snd p
      in if isArray targetValue \<and> isArray sourceValue then
           JArr False (elems targetValue @ elems sourceValue)
         else if isObject targetValue \<and> isObject sourceValue then
           deepMergeOwn targetValue sourceValue
         else cloneValue sourceValue)"

text \<open>The names of the own properties of a value.\<close>

fun ownKeys :: "jsval \<Rightarrow> ustring list" where
  "ownKeys (JObj c f ps) = map fst ps"
| "ownKeys v = []"

section \<open>utils/deep-merge.js, on a store\<close>

text \<open>
  Whether the result of a merge shares objects with its arguments depends on the identity
  of objects. Here an object is a cell of a store, at an address, and a value is a
  primitive or a reference to a cell. Allocation appends a cell; the store is a list.
\<close>

type_synonym addr = nat

datatype prim = PUndefined | PNull | PBool bool | PNum int | PNaN | PStr ustring

datatype rval = Prim prim | Ref addr

datatype cell =
    CArr "rval list"
  | CObj ocls "(ustring \<times> rval) list"
  | CDate "int option"

type_synonym heap = "cell list"








text \<open>
  What a value shows through the store: the tree below it, read to the depth given.
\<close>

fun primVal :: "prim \<Rightarrow> jsval" where
  "primVal PUndefined = JUndefined"
| "primVal PNull = JNull"
| "primVal (PBool b) = JBool b"
| "primVal (PNum n) = JNum n"
| "primVal PNaN = JNaN"
| "primVal (PStr s) = JStr s"

fun reify :: "nat \<Rightarrow> heap \<Rightarrow> rval \<Rightarrow> jsval" where
  "reify n h (Prim p) = primVal p"
| "reify 0 h (Ref a) = JUndefined"
| "reify (Suc n) h (Ref a) =
     (if a < length h then
        (case h ! a of
           CArr xs \<Rightarrow> JArr False (map (reify n h) xs)
         | CObj c ps \<Rightarrow> JObj c False (map (\<lambda>p. (fst p, reify n h (snd p))) ps)
         | CDate t \<Rightarrow> JDate False t)
      else JUndefined)"

text \<open>
  On a store in which objects refer to older objects only, the depth \<open>length h\<close> reaches
  everything: the whole tree below a value.
\<close>

definition view :: "heap \<Rightarrow> rval \<Rightarrow> jsval" where
  "view h v = reify (length h) h v"



definition refsBelow :: "addr \<Rightarrow> rval list \<Rightarrow> bool" where
  "refsBelow m vs = (\<forall>v\<in>set vs. case v of Ref b \<Rightarrow> b < m | Prim p \<Rightarrow> True)"





section \<open>app-error.builder.js\<close>

text \<open>
  \<open>String.prototype.trim\<close> removes the white space and line terminators of the language
  from both ends; each of them is one code unit.
\<close>

definition isWhiteSpace :: "nat \<Rightarrow> bool" where
  "isWhiteSpace c =
     (c \<in> {9, 10, 11, 12, 13, 32, 160, 5760, 8232, 8233, 8239, 8287, 12288, 65279}
      \<or> (8192 \<le> c \<and> c \<le> 8202))"

definition trim :: "ustring \<Rightarrow> ustring" where
  "trim s = rev (dropWhile isWhiteSpace (rev (dropWhile isWhiteSpace s)))"

definition VALID_TYPES :: "jsval list" where
  "VALID_TYPES = map JStr ERROR_TYPES"

definition VALID_LEVELS :: "jsval list" where
  "VALID_LEVELS = map JStr ERROR_LEVELS"

text \<open>The three assertions return the error they throw, if any.\<close>

definition assertCode :: "jsval \<Rightarrow> jserr option" where
  "assertCode code =
     (case code of
        JStr s \<Rightarrow> (if \<not> truthy (JStr (trim s)) then Some InvalidCode else None)
      | _ \<Rightarrow> Some InvalidCode)"

definition assertType :: "jsval \<Rightarrow> jserr option" where
  "assertType type = (if \<not> List.member VALID_TYPES type then Some InvalidType else None)"

definition assertLevel :: "jsval \<Rightarrow> jserr option" where
  "assertLevel level = (if \<not> List.member VALID_LEVELS level then Some InvalidLevel else None)"

definition ensureArray :: "jsval \<Rightarrow> jsval" where
  "ensureArray v = (if isNullish v then JArr False [] else if isArray v then v else JArr False [v])"

definition createDefaultMessages :: "jserr + jsval" where
  "createDefaultMessages = cloneLocalizedMessages DEFAULT_MESSAGES"

definition normalizeMessagesInput :: "jsval \<Rightarrow> jserr + jsval" where
  "normalizeMessagesInput v =
     (if \<not> truthy v then createDefaultMessages
      else if typeof v = ''string'' then
        Inr (JObj Plain False
          [(str ''user'', ensureLocalizedText v DEFAULT_MESSAGES_user),
           (str ''original'', ensureLocalizedText v DEFAULT_MESSAGES_original)])
      else if typeof v = ''object'' then
        (let normalizedUser =
               ensureLocalizedText (nc (getProp v (str ''user'')) (getProp v (str ''original'')))
                 DEFAULT_MESSAGES_user;
             normalizedOriginal =
               ensureLocalizedText (nc (getProp v (str ''original'')) (getProp v (str ''user'')))
                 DEFAULT_MESSAGES_original
         in Inr (JObj Plain False
              [(str ''user'', normalizedUser), (str ''original'', normalizedOriginal)]))
      else createDefaultMessages)"

text \<open>The state that the builder's closures share.\<close>

record state =
  st_code :: jsval
  st_type :: jsval
  st_level :: jsval
  st_messages :: jsval
  st_reason :: jsval
  st_descriptions :: jsval
  st_service :: jsval
  st_metadata :: jsval
  st_breadcrumbs :: jsval
  st_causes :: jsval
  st_originalError :: jsval
  st_timestamp :: jsval

text \<open>
  \<open>createAppErrorBuilder({ code, type })\<close> returns the error thrown or the initial state;
  each setter takes the state and returns the error thrown or the state after the call.
\<close>

definition createAppErrorBuilder :: "env \<Rightarrow> jsval \<Rightarrow> jserr + state" where
  "createAppErrorBuilder E arg =
     (if isNullish arg then Inl NullAccess
      else
        (let code = getProp arg (str ''code'');
             type = getProp arg (str ''type'')
         in case assertCode code of
              Some e \<Rightarrow> Inl e
            | None \<Rightarrow>
              (case assertType type of
                 Some e \<Rightarrow> Inl e
               | None \<Rightarrow>
                 (case defaultLevelOf E type of
                    Inl e \<Rightarrow> Inl e
                  | Inr d \<Rightarrow>
                    (case createDefaultMessages of
                       Inl e \<Rightarrow> Inl e
                     | Inr messages \<Rightarrow>
                       Inr \<lparr> st_code = (case code of JStr s \<Rightarrow> JStr (trim s) | _ \<Rightarrow> code),
                             st_type = type,
                             st_level = nc d (JStr (str ''error'')),
                             st_messages = messages,
                             st_reason = JNull,
                             st_descriptions = JArr False [],
                             st_service = JNull,
                             st_metadata = JObj Plain False [],
                             st_breadcrumbs = JArr False [],
                             st_causes = JArr False [],
                             st_originalError = JNull,
                             st_timestamp = JDate False (Some (now E)) \<rparr>)))))"

definition withMessages :: "state \<Rightarrow> jsval \<Rightarrow> jserr + state" where
  "withMessages st messages =
     (case normalizeMessagesInput messages of
        Inl e \<Rightarrow> Inl e
      | Inr m \<Rightarrow> Inr (st\<lparr>st_messages := m\<rparr>))"

definition withReason :: "state \<Rightarrow> jsval \<Rightarrow> jserr + state" where
  "withReason st reason =
     (if \<not> isNullish reason \<and> typeof reason \<noteq> ''string'' then Inl InvalidReason
      else Inr (st\<lparr>st_reason := nc reason JNull\<rparr>))"

definition withLevel :: "state \<Rightarrow> jsval \<Rightarrow> jserr + state" where
  "withLevel st level =
     (case assertLevel level of
        Some e \<Rightarrow> Inl e
      | None \<Rightarrow> Inr (st\<lparr>st_level := level\<rparr>))"

definition withService :: "state \<Rightarrow> jsval \<Rightarrow> jserr + state" where
  "withService st service0 =
     (let service = dflt service0 (JObj Plain False [])
      in if service = JNull then Inl NullAccess
         else
           Inr (st\<lparr>st_service := JObj Plain False
                  [(str ''name'', dflt (getProp service (str ''name'')) JNull),
                   (str ''method'', dflt (getProp service (str ''method'')) JNull),
                   (str ''args'', dflt (getProp service (str ''args'')) JNull),
                   (str ''operation'', dflt (getProp service (str ''operation'')) JNull)]\<rparr>))"

definition withMetadata :: "state \<Rightarrow> jsval \<Rightarrow> jserr + state" where
  "withMetadata st extra0 =
     (let extra = dflt extra0 (JObj Plain False [])
      in if isNullish extra \<or> typeof extra \<noteq> ''object'' then Inl InvalidMetadata
         else Inr (st\<lparr>st_metadata := deepMerge (st_metadata st) extra\<rparr>))"

definition withDescriptions :: "state \<Rightarrow> jsval \<Rightarrow> jserr + state" where
  "withDescriptions st descriptions = Inr (st\<lparr>st_descriptions := ensureArray descriptions\<rparr>)"

definition withBreadcrumbs :: "state \<Rightarrow> jsval \<Rightarrow> jserr + state" where
  "withBreadcrumbs st breadcrumbs = Inr (st\<lparr>st_breadcrumbs := ensureArray breadcrumbs\<rparr>)"

definition withCauses :: "state \<Rightarrow> jsval \<Rightarrow> jserr + state" where
  "withCauses st causes = Inr (st\<lparr>st_causes := ensureArray causes\<rparr>)"

definition withOriginalError :: "state \<Rightarrow> jsval \<Rightarrow> jserr + state" where
  "withOriginalError st error =
     (if error = JUndefined then Inr st
      else if error \<noteq> JNull \<and> \<not> instanceofError error then Inl InvalidOriginalError
      else Inr (st\<lparr>st_originalError := error\<rparr>))"

text \<open>
  \<open>Date.parse(timestamp)\<close> parses the string conversion of its argument, which throws
  when the argument has no primitive value.
\<close>

definition withTimestamp :: "env \<Rightarrow> state \<Rightarrow> jsval \<Rightarrow> jserr + state" where
  "withTimestamp E st timestamp =
     (if instanceofDate timestamp then Inr (st\<lparr>st_timestamp := timestamp\<rparr>)
      else
        (case tpl E timestamp of
           Inl e \<Rightarrow> Inl e
         | Inr s \<Rightarrow>
             if parseDate E s = None then Inl InvalidTimestamp
             else (case toDate E timestamp of
                     Inl e \<Rightarrow> Inl e
                   | Inr d \<Rightarrow> Inr (st\<lparr>st_timestamp := d\<rparr>))))"

definition build :: "env \<Rightarrow> state \<Rightarrow> jserr + jsval" where
  "build E st =
     (case AppError_new E (JObj Plain False
             [(str ''code'', st_code st),
              (str ''type'', st_type st),
              (str ''level'', st_level st),
              (str ''messages'', st_messages st),
              (str ''reason'', st_reason st),
              (str ''descriptions'', st_descriptions st),
              (str ''service'', st_service st),
              (str ''metadata'', st_metadata st),
              (str ''breadcrumbs'', st_breadcrumbs st),
              (str ''causes'', st_causes st),
              (str ''originalError'', st_originalError st),
              (str ''timestamp'', st_timestamp st)]) of
        Inl e \<Rightarrow> Inl e
      | Inr e \<Rightarrow> Inr (freeze e))"

text \<open>
  A fluent use of the builder, \<open>createAppErrorBuilder(...).withX(a).withY(b)...\<close>, is a
  list of setter calls run in order on the shared state; the first error thrown ends it.
\<close>

datatype setter =
    WithMessages jsval
  | WithReason jsval
  | WithLevel jsval
  | WithService jsval
  | WithMetadata jsval
  | WithDescriptions jsval
  | WithBreadcrumbs jsval
  | WithCauses jsval
  | WithOriginalError jsval
  | WithTimestamp jsval

fun call :: "env \<Rightarrow> state \<Rightarrow> setter \<Rightarrow> jserr + state" where
  "call E st (WithMessages v) = withMessages st v"
| "call E st (WithReason v) = withReason st v"
| "call E st (WithLevel v) = withLevel st v"
| "call E st (WithService v) = withService st v"
| "call E st (WithMetadata v) = withMetadata st v"
| "call E st (WithDescriptions v) = withDescriptions st v"
| "call E st (WithBreadcrumbs v) = withBreadcrumbs st v"
| "call E st (WithCauses v) = withCauses st v"
| "call E st (WithOriginalError v) = withOriginalError st v"
| "call E st (WithTimestamp v) = withTimestamp E st v"

fun chain :: "env \<Rightarrow> state \<Rightarrow> setter list \<Rightarrow> jserr + state" where
  "chain E st [] = Inr st"
| "chain E st (c # cs) = (case call E st c of Inl e \<Rightarrow> Inl e | Inr st' \<Rightarrow> chain E st' cs)"

section \<open>A sample environment\<close>

definition sampleEnv :: env where
  "sampleEnv =
     \<lparr> now = 1000,
       parseDate = (\<lambda>s. if s = str ''2024-05-10T13:00:00Z'' then Some 1715346000000 else None),
       toStr = (\<lambda>v. case v of
                  JNum n \<Rightarrow> (if 0 \<le> n then decimal (nat n) else 45 # decimal (nat (- n)))
                | _ \<Rightarrow> str ''Invalid Date''),
       joined = (\<lambda>v. None),
       capturedStack = JStr (str ''Error at <anonymous>'') \<rparr>"

text \<open>
  The state of the builder created in that environment from
  \<open>{ code: "COMPONENT", type: "component" }\<close>.
\<close>

definition sampleState :: state where
  "sampleState =
     \<lparr> st_code = JStr (str ''COMPONENT''),
       st_type = JStr (str ''component''),
       st_level = JStr (str ''error''),
       st_messages = JObj Plain False
         [(str ''user'', JObj Plain False
             [(str ''fa'', JStr default_fa), (str ''en'', JStr default_en)]),
          (str ''original'', JObj Plain False
             [(str ''fa'', JStr default_fa), (str ''en'', JStr default_en)])],
       st_reason = JNull,
       st_descriptions = JArr False [],
       st_service = JNull,
       st_metadata = JObj Plain False [],
       st_breadcrumbs = JArr False [],
       st_causes = JArr False [],
       st_originalError = JNull,
       st_timestamp = JDate False (Some 1000) \<rparr>"

text \<open>
  The instance constructed in that environment by
  \<open>new AppError({ code: "X", messages: "down" })\<close>.
\<close>

definition sampleError :: jsval where
  "sampleError =
     JObj AppErrorInst True
      [(str ''message'', JStr (str ''down'')),
       (str ''name'', JStr (str ''AppError'')),
       (str ''code'', JStr (str ''X'')),
       (str ''type'', JUndefined),
       (str ''level'', JStr (str ''error'')),
       (str ''messages'', JObj Plain True
          [(str ''user'', JObj Plain True
              [(str ''fa'', JStr (str ''down'')), (str ''en'', JStr (str ''down''))]),
           (str ''original'', JObj Plain True
              [(str ''fa'', JStr (str ''down'')), (str ''en'', JStr (str ''down''))])]),
       (str ''reason'', JNull),
       (str ''descriptions'', JArr True []),
       (str ''service'', JNull),
       (str ''metadata'', JObj Plain True []),
       (str ''breadcrumbs'', JArr True []),
       (str ''causes'', JArr True []),
       (str ''originalError'', JNull),
       (str ''timestamp'', JDate False (Some 1000)),
       (str ''stack'', JStr (str ''Error at <anonymous>''))]"



section \<open>Reading properties\<close>

lemma str_eq_iff [simp]: "str a = str b \<longleftrightarrow> a = b"
  by (simp add: str_def inj_on_def)

lemma getProp_JObj [simp]:
  "getProp (JObj c f ps) k =
     (case map_of ps k of
        Some x \<Rightarrow> x
      | None \<Rightarrow> if k = str ''__proto__'' then prototypeOf (JObj c f ps) else JUndefined)"
  by (simp add: getProp_def)

lemma getProp_JInherit [simp]:
  "getProp (JInherit p f ps) k = (case map_of ps k of Some x \<Rightarrow> x | None \<Rightarrow> inherited p p k)"
  by (simp add: getProp_def)

lemma getProp_primitive [simp]:
  "getProp JUndefined k = JUndefined"
  "getProp JNull k = JUndefined"
  "getProp (JBool b) k = JUndefined"
  "getProp (JNum n) k = JUndefined"
  "getProp JNaN k = JUndefined"
  "getProp (JStr s) k = JUndefined"
  by (simp_all add: getProp_def)

lemma getProp_JDate [simp]:
  "getProp (JDate f t) k = (if k = str ''__proto__'' then datePrototype else JUndefined)"
  by (simp add: getProp_def)

lemma getProp_JArr [simp]:
  "getProp (JArr f xs) k =
     (case elementAt xs k of
        Some x \<Rightarrow> x
      | None \<Rightarrow>
          if k = str ''length'' then JNum (int (length xs))
          else if k = str ''__proto__'' then arrayPrototype
          else JUndefined)"
  by (simp add: getProp_def)

text \<open>A property name with a character that is no digit is not an array index.\<close>

lemma decimal_digits: "c \<in> set (decimal n) \<Longrightarrow> 48 \<le> c \<and> c \<le> 57"
proof (induction n arbitrary: c rule: decimal.induct)
  case (1 n)
  show ?case
  proof (cases "n < 10")
    case True
    with 1(2) show ?thesis
      by (simp add: decimal.simps [of n])
  next
    case False
    with 1 show ?thesis
      by (subst (asm) decimal.simps) (auto split: if_splits)
  qed
qed

lemma elementAt_no_index: "\<exists>c\<in>set k. c < 48 \<or> 57 < c \<Longrightarrow> elementAt xs k = None"
proof -
  assume a: "\<exists>c\<in>set k. c < 48 \<or> 57 < c"
  have "decimal i \<noteq> k" for i
    using a decimal_digits [of _ i] by fastforce
  then have "find (\<lambda>i. decimal i = k) [0..<length xs] = None"
    by (simp add: find_None_iff)
  then show ?thesis
    by (simp add: elementAt_def)
qed

section \<open>Converting to strings\<close>

lemma tpl_primitive [simp]:
  "tpl E (JStr s) = Inr s"
  "tpl E JUndefined = Inr (str ''undefined'')"
  "tpl E JNull = Inr (str ''null'')"
  "tpl E (JBool b) = Inr (if b then str ''true'' else str ''false'')"
  "tpl E JNaN = Inr (str ''NaN'')"
  "tpl E (JNum n) = Inr (toStr E (JNum n))"
  by (simp_all add: tpl.simps)

lemma tpl_object:
  "typeof v = ''object'' \<Longrightarrow> v \<noteq> JNull \<Longrightarrow> toStringOf v = NoToString \<Longrightarrow>
   tpl E v = Inl NotConvertible"
  "typeof v = ''object'' \<Longrightarrow> v \<noteq> JNull \<Longrightarrow> toStringOf v = ObjectToString \<Longrightarrow>
   tpl E v = Inr (str ''[object Object]'')"
  "tpl E (JDate f t) = Inr (toStr E (JDate f t))"
  by (simp_all add: tpl.simps)

lemma dateTime_object:
  "typeof v = ''object'' \<Longrightarrow> v \<noteq> JNull \<Longrightarrow> \<not> isDate v \<Longrightarrow>
   dateTime E v = (case tpl E v of Inl e \<Rightarrow> Inl e | Inr s \<Rightarrow> Inr (parseDate E s))"
  by (cases v) simp_all

text \<open>
  The conversions succeed on strings and on the other primitive values, and the two of
  them fail together: \<open>new Date(v)\<close> throws exactly when the string conversion of \<open>v\<close>
  does.
\<close>

lemma dateTime_tpl: "(\<exists>e. dateTime E v = Inl e) \<longleftrightarrow> (\<exists>e. tpl E v = Inl e)"
  by (cases v) (auto simp: tpl_object split: sum.splits)

lemma dateTime_error: "dateTime E v = Inl e \<Longrightarrow> tpl E v = Inl e"
  by (cases v) (auto simp: tpl_object split: sum.splits)

section \<open>Localization\<close>

lemma ensureLocalizedText_shape:
  "\<exists>a b. ensureLocalizedText x fb = JObj Plain False [(str ''fa'', a), (str ''en'', b)]"
  by (simp add: ensureLocalizedText_def cloneFallback_def Let_def)

lemma ensureLocalizedText_complete:
  "\<not> isNullish a \<Longrightarrow> \<not> isNullish b \<Longrightarrow>
   ensureLocalizedText (JObj Plain False [(str ''fa'', a), (str ''en'', b)]) fb2
     = JObj Plain False [(str ''fa'', a), (str ''en'', b)]"
  by (simp add: ensureLocalizedText_def Let_def nc_def isNullish_def)

text \<open>
  Claim C8. Localization is idempotent on complete pairs: when \<open>ensureLocalizedText x fb\<close>
  yields a pair whose two slots are both defined (neither \<open>null\<close> nor \<open>undefined\<close>),
  localizing that pair again returns it unchanged, whatever the second fallback \<open>fb2\<close> is.
\<close>

theorem ensureLocalizedText_idempotent:
  assumes "\<not> isNullish (getProp (ensureLocalizedText x fb) (str ''fa''))"
    and "\<not> isNullish (getProp (ensureLocalizedText x fb) (str ''en''))"
  shows "ensureLocalizedText (ensureLocalizedText x fb) fb2 = ensureLocalizedText x fb"
proof -
  obtain a b where r: "ensureLocalizedText x fb = JObj Plain False [(str ''fa'', a), (str ''en'', b)]"
    using ensureLocalizedText_shape by blast
  with assms have "\<not> isNullish a" "\<not> isNullish b"
    by simp_all
  then show ?thesis
    by (simp add: r ensureLocalizedText_complete)
qed

theorem ensureLocalizedText_idempotent_witness:
  "\<not> isNullish (getProp (ensureLocalizedText (JObj Plain False [(str ''en'', JStr (str ''only-en''))]) JUndefined) (str ''fa''))
   \<and> \<not> isNullish (getProp (ensureLocalizedText (JObj Plain False [(str ''en'', JStr (str ''only-en''))]) JUndefined) (str ''en''))
   \<and> ensureLocalizedText (ensureLocalizedText (JObj Plain False [(str ''en'', JStr (str ''only-en''))]) JUndefined)
        (JObj Plain False [(str ''fa'', JStr (str ''x'')), (str ''en'', JStr (str ''y''))])
      = JObj Plain False [(str ''fa'', JStr (str ''only-en'')), (str ''en'', JStr (str ''only-en''))]"
proof -
  have e: "ensureLocalizedText (JObj Plain False [(str ''en'', JStr (str ''only-en''))]) JUndefined
      = JObj Plain False [(str ''fa'', JStr (str ''only-en'')), (str ''en'', JStr (str ''only-en''))]"
    by (simp add: ensureLocalizedText_def cloneFallback_def Let_def nc_def isNullish_def optGet_def)
  have h1: "\<not> isNullish (getProp (ensureLocalizedText (JObj Plain False [(str ''en'', JStr (str ''only-en''))]) JUndefined) (str ''fa''))"
    by (simp add: e isNullish_def)
  have h2: "\<not> isNullish (getProp (ensureLocalizedText (JObj Plain False [(str ''en'', JStr (str ''only-en''))]) JUndefined) (str ''en''))"
    by (simp add: e isNullish_def)
  from ensureLocalizedText_idempotent [OF h1 h2] h1 h2 e show ?thesis
    by simp
qed

section \<open>The constructor\<close>

lemma normalizeMessages_Inl: "normalizeMessages m = Inl err \<Longrightarrow> m = JNull \<and> err = NullAccess"
  by (auto simp: normalizeMessages_def dflt_def Let_def split: if_splits)

lemma normalizeMessages_total: "m \<noteq> JNull \<Longrightarrow> \<exists>nm. normalizeMessages m = Inr nm"
  by (auto simp: normalizeMessages_def dflt_def Let_def split: if_splits)

lemma baseMessage_defined: "\<not> isNullish (baseMessage u)"
  by (simp add: baseMessage_def nc_def isNullish_def)

lemma baseMessage_not_undefined [simp]: "baseMessage u \<noteq> JUndefined"
  using baseMessage_defined [of u] by (auto simp: isNullish_def)

lemma sum_bind_Inr:
  assumes "(case x of Inl e \<Rightarrow> Inl e | Inr v \<Rightarrow> f v) = Inr r"
  obtains v where "x = Inr v" "f v = Inr r"
  using assms by (cases x) auto

lemma errorMessage_Inr:
  "errorMessage E (baseMessage u) = Inr m \<longleftrightarrow>
     (\<exists>s. tpl E (baseMessage u) = Inr s \<and> m = [(str ''message'', JStr s)])"
  by (auto simp: errorMessage_def split: sum.splits)

text \<open>
  What the constructor returns, when it returns: the steps that can throw have each given
  a value, and the instance holds these values and the fields of the bag.
\<close>

lemma AppError_new_Inr:
  assumes "AppError_new E arg = Inr e"
  shows "\<not> isNullish arg \<and> (\<exists>nm s lv bs ts.
      normalizeMessages (getProp arg (str ''messages'')) = Inr nm
    \<and> tpl E (baseMessage (getProp nm (str ''user''))) = Inr s
    \<and> levelOf E (getProp arg (str ''level'')) (getProp arg (str ''type'')) = Inr lv
    \<and> normalizeBreadcrumbs E (dflt (getProp arg (str ''breadcrumbs'')) (JArr False [])) = Inr bs
    \<and> toDate E (dflt (getProp arg (str ''timestamp'')) (JDate False (Some (now E)))) = Inr ts
    \<and> e = JObj AppErrorInst True
       [(str ''message'', JStr s),
        (str ''name'', JStr (str ''AppError'')),
        (str ''code'', getProp arg (str ''code'')),
        (str ''type'', getProp arg (str ''type'')),
        (str ''level'', lv),
        (str ''messages'',
           JObj Plain True
             [(str ''user'', JObj Plain True (spreadProps (getProp nm (str ''user'')))),
              (str ''original'', JObj Plain True (spreadProps (getProp nm (str ''original''))))]),
        (str ''reason'', dflt (getProp arg (str ''reason'')) JNull),
        (str ''descriptions'', freeze (dflt (getProp arg (str ''descriptions'')) (JArr False []))),
        (str ''service'',
           (if truthy (dflt (getProp arg (str ''service'')) JNull)
            then JObj Plain True (spreadProps (dflt (getProp arg (str ''service'')) JNull))
            else JNull)),
        (str ''metadata'',
           JObj Plain True (spreadProps (dflt (getProp arg (str ''metadata'')) (JObj Plain False [])))),
        (str ''breadcrumbs'', JArr True bs),
        (str ''causes'',
           JArr True (case dflt (getProp arg (str ''causes'')) (JArr False []) of
                        JArr f xs \<Rightarrow> filter truthy (map normalizeCause xs) | _ \<Rightarrow> [])),
        (str ''originalError'', nc (dflt (getProp arg (str ''originalError'')) JNull) JNull),
        (str ''timestamp'', ts),
        (str ''stack'',
           (if truthy (dflt (getProp arg (str ''stack'')) JNull)
            then dflt (getProp arg (str ''stack'')) JNull
            else if truthy (optGet (dflt (getProp arg (str ''originalError'')) JNull) (str ''stack''))
            then getProp (dflt (getProp arg (str ''originalError'')) JNull) (str ''stack'')
            else capturedStack E))])"
proof -
  have na: "\<not> isNullish arg"
    using assms by (cases "isNullish arg") (simp_all add: AppError_new_def)
  from assms na show ?thesis
    apply (simp add: AppError_new_def Let_def)
    apply (erule sum_bind_Inr, (simp add: Let_def errorMessage_Inr)?)+
    apply auto
    done
qed

lemma AppError_new_fields:
  assumes "AppError_new E arg = Inr e"
  shows "getProp e (str ''code'') = getProp arg (str ''code'')"
    and "getProp e (str ''type'') = getProp arg (str ''type'')"
    and "getProp e (str ''reason'') = dflt (getProp arg (str ''reason'')) JNull"
    and "getProp e (str ''descriptions'')
           = freeze (dflt (getProp arg (str ''descriptions'')) (JArr False []))"
    and "getProp e (str ''service'')
           = (if truthy (getProp arg (str ''service''))
              then JObj Plain True (spreadProps (getProp arg (str ''service''))) else JNull)"
    and "getProp e (str ''metadata'')
           = JObj Plain True (spreadProps (dflt (getProp arg (str ''metadata'')) (JObj Plain False [])))"
    and "\<exists>bs. normalizeBreadcrumbs E (getProp arg (str ''breadcrumbs'')) = Inr bs
           \<and> getProp e (str ''breadcrumbs'') = JArr True bs"
    and "getProp e (str ''causes'')
           = JArr True (case dflt (getProp arg (str ''causes'')) (JArr False []) of
                          JArr f xs \<Rightarrow> filter truthy (map normalizeCause xs) | _ \<Rightarrow> [])"
    and "\<exists>ps. e = JObj AppErrorInst True ps"
proof -
  have d: "dflt (dflt v w) w = dflt v w" for v w
    by (simp add: dflt_def)
  have nb: "normalizeBreadcrumbs E (dflt v (JArr False [])) = normalizeBreadcrumbs E v" for v
    by (simp add: normalizeBreadcrumbs_def d)
  have sv: "(if truthy (dflt v JNull) then JObj Plain True (spreadProps (dflt v JNull)) else JNull)
      = (if truthy v then JObj Plain True (spreadProps v) else JNull)" for v
    by (simp add: dflt_def)
  note e = AppError_new_Inr [OF assms]
  show "getProp e (str ''code'') = getProp arg (str ''code'')"
    using e by auto
  show "getProp e (str ''type'') = getProp arg (str ''type'')"
    using e by auto
  show "getProp e (str ''reason'') = dflt (getProp arg (str ''reason'')) JNull"
    using e by auto
  show "getProp e (str ''descriptions'')
           = freeze (dflt (getProp arg (str ''descriptions'')) (JArr False []))"
    using e by auto
  show "getProp e (str ''service'')
           = (if truthy (getProp arg (str ''service''))
              then JObj Plain True (spreadProps (getProp arg (str ''service''))) else JNull)"
    using e by (auto simp: sv)
  show "getProp e (str ''metadata'')
           = JObj Plain True (spreadProps (dflt (getProp arg (str ''metadata'')) (JObj Plain False [])))"
    using e by auto
  show "\<exists>bs. normalizeBreadcrumbs E (getProp arg (str ''breadcrumbs'')) = Inr bs
           \<and> getProp e (str ''breadcrumbs'') = JArr True bs"
    using e by (auto simp: nb)
  show "getProp e (str ''causes'')
           = JArr True (case dflt (getProp arg (str ''causes'')) (JArr False []) of
                          JArr f xs \<Rightarrow> filter truthy (map normalizeCause xs) | _ \<Rightarrow> [])"
    using e by auto
  show "\<exists>ps. e = JObj AppErrorInst True ps"
    using e by blast
qed

text \<open>
  When the constructor returns: the bag and its messages are not \<open>null\<close>, and the
  conversions it makes succeed.
\<close>

lemma AppError_new_total:
  assumes "\<not> isNullish arg"
    and "normalizeMessages (getProp arg (str ''messages'')) = Inr nm"
    and "tpl E (baseMessage (getProp nm (str ''user''))) = Inr s"
    and "levelOf E (getProp arg (str ''level'')) (getProp arg (str ''type'')) = Inr lv"
    and "normalizeBreadcrumbs E (dflt (getProp arg (str ''breadcrumbs'')) (JArr False [])) = Inr bs"
    and "toDate E (dflt (getProp arg (str ''timestamp'')) (JDate False (Some (now E)))) = Inr ts"
  shows "\<exists>e. AppError_new E arg = Inr e"
  using assms by (simp add: AppError_new_def Let_def errorMessage_def)

section \<open>Messages and the string rendering\<close>

lemma ensureLocalizedText_default:
  assumes "fb = DEFAULT_MESSAGES_user \<or> fb = DEFAULT_MESSAGES_original"
  shows "\<exists>a b. ensureLocalizedText v fb = JObj Plain False [(str ''fa'', a), (str ''en'', b)]
           \<and> \<not> isNullish a \<and> \<not> isNullish b"
  using assms
  by (auto simp: ensureLocalizedText_def cloneFallback_def Let_def nc_def isNullish_def optGet_def
      DEFAULT_MESSAGES_user_def DEFAULT_MESSAGES_original_def)

lemma normalizeMessages_shape:
  assumes "normalizeMessages m = Inr nm"
  shows "\<exists>a b c d. nm = JObj Plain False
            [(str ''user'', JObj Plain False [(str ''fa'', a), (str ''en'', b)]),
             (str ''original'', JObj Plain False [(str ''fa'', c), (str ''en'', d)])]
           \<and> \<not> isNullish a \<and> \<not> isNullish b \<and> \<not> isNullish c \<and> \<not> isNullish d"
proof -
  obtain x y where nm: "nm = JObj Plain False
      [(str ''user'', ensureLocalizedText x DEFAULT_MESSAGES_user),
       (str ''original'', ensureLocalizedText y DEFAULT_MESSAGES_original)]"
    using assms by (auto simp: normalizeMessages_def Let_def split: if_splits)
  obtain a b where u: "ensureLocalizedText x DEFAULT_MESSAGES_user
      = JObj Plain False [(str ''fa'', a), (str ''en'', b)]" "\<not> isNullish a" "\<not> isNullish b"
    using ensureLocalizedText_default [of DEFAULT_MESSAGES_user x] by auto
  obtain c d where o: "ensureLocalizedText y DEFAULT_MESSAGES_original
      = JObj Plain False [(str ''fa'', c), (str ''en'', d)]" "\<not> isNullish c" "\<not> isNullish d"
    using ensureLocalizedText_default [of DEFAULT_MESSAGES_original y] by auto
  show ?thesis
    using nm u o by auto
qed

lemma normalizeMessages_string:
  "normalizeMessages (JStr s) = Inr (JObj Plain False
     [(str ''user'', JObj Plain False [(str ''fa'', JStr s), (str ''en'', JStr s)]),
      (str ''original'', JObj Plain False [(str ''fa'', JStr s), (str ''en'', JStr s)])])"
  by (simp add: normalizeMessages_def ensureLocalizedText_def dflt_def Let_def isNullish_def)

lemma defaultLevelOf_string:
  "defaultLevelOf E (JStr s) = Inr (getProp (JObj Plain True DEFAULT_LEVEL_BY_TYPE) s)"
  by (simp add: defaultLevelOf_def)

lemma levelOf_sample_undefined: "levelOf sampleEnv JUndefined JUndefined = Inr (JStr (str ''error''))"
  by (simp add: levelOf_def defaultLevelOf_def DEFAULT_LEVEL_BY_TYPE_def isNullish_def nc_def
      str_def)

lemma normalizeBreadcrumbs_empty [simp]: "normalizeBreadcrumbs E (JArr f []) = Inr []"
  by (simp add: normalizeBreadcrumbs_def dflt_def toArray_def isNullish_def)

lemma toDate_date [simp]: "toDate E (JDate f t) = Inr (JDate f t)"
  by (simp add: toDate_def)

lemma AppError_new_down:
  "AppError_new sampleEnv (JObj Plain False
       [(str ''code'', JStr (str ''X'')), (str ''messages'', JStr (str ''down''))])
  = Inr (JObj AppErrorInst True
      [(str ''message'', JStr (str ''down'')),
       (str ''name'', JStr (str ''AppError'')),
       (str ''code'', JStr (str ''X'')),
       (str ''type'', JUndefined),
       (str ''level'', JStr (str ''error'')),
       (str ''messages'', JObj Plain True
          [(str ''user'', JObj Plain True
              [(str ''fa'', JStr (str ''down'')), (str ''en'', JStr (str ''down''))]),
           (str ''original'', JObj Plain True
              [(str ''fa'', JStr (str ''down'')), (str ''en'', JStr (str ''down''))])]),
       (str ''reason'', JNull),
       (str ''descriptions'', JArr True []),
       (str ''service'', JNull),
       (str ''metadata'', JObj Plain True []),
       (str ''breadcrumbs'', JArr True []),
       (str ''causes'', JArr True []),
       (str ''originalError'', JNull),
       (str ''timestamp'', JDate False (Some 1000)),
       (str ''stack'', JStr (str ''Error at <anonymous>''))])"
  by (simp add: AppError_new_def normalizeMessages_string levelOf_sample_undefined
      isNullish_def Let_def dflt_def nc_def optGet_def baseMessage_def errorMessage_def)
    (simp add: sampleEnv_def)



section \<open>The builder: the code\<close>

lemma dropWhile_ws_nil: "dropWhile isWhiteSpace s = [] \<longleftrightarrow> (\<forall>c\<in>set s. isWhiteSpace c)"
  by (induction s) auto

lemma trim_nil_iff: "trim s = [] \<longleftrightarrow> (\<forall>c\<in>set s. isWhiteSpace c)"
proof
  assume "trim s = []"
  then have "\<forall>c\<in>set (rev (dropWhile isWhiteSpace s)). isWhiteSpace c"
    unfolding trim_def by (simp add: dropWhile_ws_nil)
  then have "\<forall>c\<in>set (dropWhile isWhiteSpace s). isWhiteSpace c"
    by simp
  then have "dropWhile isWhiteSpace s = []"
    by (metis hd_dropWhile hd_in_set)
  then show "\<forall>c\<in>set s. isWhiteSpace c"
    by (simp add: dropWhile_ws_nil)
next
  assume "\<forall>c\<in>set s. isWhiteSpace c"
  then show "trim s = []"
    by (auto simp: trim_def dest: set_dropWhileD)
qed

lemma trim_decomp:
  "\<exists>l r. s = l @ trim s @ r \<and> (\<forall>c\<in>set l. isWhiteSpace c) \<and> (\<forall>c\<in>set r. isWhiteSpace c)
     \<and> (trim s \<noteq> [] \<longrightarrow> \<not> isWhiteSpace (hd (trim s)) \<and> \<not> isWhiteSpace (last (trim s)))"
proof -
  let ?l = "takeWhile isWhiteSpace s"
  let ?m = "dropWhile isWhiteSpace s"
  let ?r = "rev (takeWhile isWhiteSpace (rev ?m))"
  have m: "?m = trim s @ ?r"
    unfolding trim_def by (metis rev_append rev_rev_ident takeWhile_dropWhile_id)
  have "s = ?l @ trim s @ ?r"
    using m by (metis takeWhile_dropWhile_id)
  moreover have "\<forall>c\<in>set ?l. isWhiteSpace c"
    by (auto dest: set_takeWhileD)
  moreover have "\<forall>c\<in>set ?r. isWhiteSpace c"
    by (auto dest: set_takeWhileD)
  moreover have "\<not> isWhiteSpace (last (trim s))" if "trim s \<noteq> []"
    using that unfolding trim_def by (simp add: last_rev hd_dropWhile)
  moreover have "\<not> isWhiteSpace (hd (trim s))" if "trim s \<noteq> []"
  proof -
    have "?m \<noteq> []"
    proof
      assume "?m = []"
      then have "trim s = []" by (simp only: trim_def rev.simps dropWhile.simps)
      with that show False by simp
    qed
    then have "\<not> isWhiteSpace (hd ?m)" by (rule hd_dropWhile)
    moreover have "hd ?m = hd (trim s)" using m that by (metis hd_append2)
    ultimately show ?thesis by simp
  qed
  ultimately show ?thesis by blast
qed


lemma createDefaultMessages_eval:
  "createDefaultMessages = Inr (JObj Plain False
     [(str ''user'', JObj Plain False [(str ''fa'', JStr default_fa), (str ''en'', JStr default_en)]),
      (str ''original'', JObj Plain False [(str ''fa'', JStr default_fa), (str ''en'', JStr default_en)])])"
  by (simp add: createDefaultMessages_def cloneLocalizedMessages_def DEFAULT_MESSAGES_def dflt_def
      DEFAULT_MESSAGES_user_def DEFAULT_MESSAGES_original_def ensureLocalizedText_def Let_def
      isNullish_def nc_def)

lemma normalizeMessagesInput_shape:
  "\<exists>u original. normalizeMessagesInput v
     = Inr (JObj Plain False [(str ''user'', u), (str ''original'', original)])"
  by (simp add: normalizeMessagesInput_def createDefaultMessages_eval Let_def)

lemma call_preserves:
  assumes "call E st c = Inr st'"
  shows "st_code st' = st_code st"
    and "st_type st' = st_type st"
    and "instanceofDate (st_timestamp st) \<Longrightarrow> instanceofDate (st_timestamp st')"
    and "(\<exists>u original. st_messages st = JObj Plain False [(str ''user'', u), (str ''original'', original)])
       \<Longrightarrow> (\<exists>u original. st_messages st' = JObj Plain False [(str ''user'', u), (str ''original'', original)])"
proof -
  show "st_code st' = st_code st"
    using assms
    by (cases c)
      (auto simp: withMessages_def withReason_def withLevel_def withService_def withMetadata_def
        withDescriptions_def withBreadcrumbs_def withCauses_def withOriginalError_def
        withTimestamp_def Let_def split: sum.splits option.splits if_splits)
  show "st_type st' = st_type st"
    using assms
    by (cases c)
      (auto simp: withMessages_def withReason_def withLevel_def withService_def withMetadata_def
        withDescriptions_def withBreadcrumbs_def withCauses_def withOriginalError_def
        withTimestamp_def Let_def split: sum.splits option.splits if_splits)
  show "instanceofDate (st_timestamp st')" if "instanceofDate (st_timestamp st)"
    using assms that
    by (cases c)
      (auto simp: withMessages_def withReason_def withLevel_def withService_def withMetadata_def
        withDescriptions_def withBreadcrumbs_def withCauses_def withOriginalError_def
        withTimestamp_def toDate_def Let_def split: sum.splits option.splits if_splits)
  assume inv: "\<exists>u original. st_messages st = JObj Plain False [(str ''user'', u), (str ''original'', original)]"
  show "\<exists>u original. st_messages st' = JObj Plain False [(str ''user'', u), (str ''original'', original)]"
  proof (cases c)
    case (WithMessages v)
    then show ?thesis
      using assms normalizeMessagesInput_shape [of v]
      by (auto simp: withMessages_def)
  qed (use assms inv in \<open>auto simp: withReason_def withLevel_def withService_def withMetadata_def
        withDescriptions_def withBreadcrumbs_def withCauses_def withOriginalError_def
        withTimestamp_def Let_def split: sum.splits option.splits if_splits\<close>)
qed

lemma chain_preserves:
  assumes "chain E st cs = Inr st'"
    and "\<exists>u original. st_messages st = JObj Plain False [(str ''user'', u), (str ''original'', original)]"
    and "instanceofDate (st_timestamp st)"
  shows "st_code st' = st_code st \<and> st_type st' = st_type st \<and> instanceofDate (st_timestamp st')
    \<and> (\<exists>u original. st_messages st' = JObj Plain False [(str ''user'', u), (str ''original'', original)])"
  using assms
proof (induction cs arbitrary: st)
  case Nil
  then show ?case by simp
next
  case (Cons c cs)
  then obtain st1 where c: "call E st c = Inr st1" and r: "chain E st1 cs = Inr st'"
    by (auto split: sum.splits)
  from call_preserves [OF c] Cons.prems(2,3) have
    "st_code st1 = st_code st" "st_type st1 = st_type st" "instanceofDate (st_timestamp st1)"
    "\<exists>u original. st_messages st1 = JObj Plain False [(str ''user'', u), (str ''original'', original)]"
    by auto
  with Cons.IH [OF r] show ?case by simp
qed

lemma getProp_freeze [simp]: "getProp (freeze v) k = getProp v k"
proof (cases v)
  case (JObj c f ps)
  then show ?thesis
    by (cases c) (simp_all split: option.splits)
qed simp_all

lemma build_code:
  assumes "build E st = Inr e"
  shows "getProp e (str ''code'') = st_code st"
proof -
  from assms obtain e' where e': "AppError_new E (JObj Plain False
             [(str ''code'', st_code st),
              (str ''type'', st_type st),
              (str ''level'', st_level st),
              (str ''messages'', st_messages st),
              (str ''reason'', st_reason st),
              (str ''descriptions'', st_descriptions st),
              (str ''service'', st_service st),
              (str ''metadata'', st_metadata st),
              (str ''breadcrumbs'', st_breadcrumbs st),
              (str ''causes'', st_causes st),
              (str ''originalError'', st_originalError st),
              (str ''timestamp'', st_timestamp st)]) = Inr e'" and e: "e = freeze e'"
    by (auto simp: build_def split: sum.splits)
  from AppError_new_fields(1) [OF e'] show ?thesis
    by (simp add: e)
qed

lemma levelOf_string: "\<exists>lv. levelOf E level (JStr t) = Inr lv"
  by (simp add: levelOf_def defaultLevelOf_string)

lemma toDate_instance: "instanceofDate ts \<Longrightarrow> toDate E (dflt ts d) = Inr ts"
  by (cases ts) (simp_all add: toDate_def dflt_def)

lemma normalizeMessages_pair:
  "\<exists>nm. normalizeMessages (JObj Plain False [(str ''user'', u), (str ''original'', original)]) = Inr nm"
  by (auto simp: normalizeMessages_def dflt_def Let_def)

lemma build_returns_iff:
  assumes "st_type st = JStr t" "instanceofDate (st_timestamp st)"
  shows "(\<exists>e. build E st = Inr e) \<longleftrightarrow>
     (\<exists>nm m bs. normalizeMessages (st_messages st) = Inr nm
        \<and> tpl E (baseMessage (getProp nm (str ''user''))) = Inr m
        \<and> normalizeBreadcrumbs E (st_breadcrumbs st) = Inr bs)"
proof
  let ?arg = "JObj Plain False
             [(str ''code'', st_code st),
              (str ''type'', st_type st),
              (str ''level'', st_level st),
              (str ''messages'', st_messages st),
              (str ''reason'', st_reason st),
              (str ''descriptions'', st_descriptions st),
              (str ''service'', st_service st),
              (str ''metadata'', st_metadata st),
              (str ''breadcrumbs'', st_breadcrumbs st),
              (str ''causes'', st_causes st),
              (str ''originalError'', st_originalError st),
              (str ''timestamp'', st_timestamp st)]"
  have nb: "normalizeBreadcrumbs E (dflt v (JArr False [])) = normalizeBreadcrumbs E v" for v
    by (simp add: normalizeBreadcrumbs_def dflt_def)
  {
    assume "\<exists>e. build E st = Inr e"
    then obtain e' where "AppError_new E ?arg = Inr e'"
      by (auto simp: build_def split: sum.splits)
    from AppError_new_Inr [OF this]
    show "\<exists>nm m bs. normalizeMessages (st_messages st) = Inr nm
        \<and> tpl E (baseMessage (getProp nm (str ''user''))) = Inr m
        \<and> normalizeBreadcrumbs E (st_breadcrumbs st) = Inr bs"
      by (auto simp: nb)
  next
    assume "\<exists>nm m bs. normalizeMessages (st_messages st) = Inr nm
        \<and> tpl E (baseMessage (getProp nm (str ''user''))) = Inr m
        \<and> normalizeBreadcrumbs E (st_breadcrumbs st) = Inr bs"
    then obtain nm m bs where
      nm: "normalizeMessages (getProp ?arg (str ''messages'')) = Inr nm"
      and m: "tpl E (baseMessage (getProp nm (str ''user''))) = Inr m"
      and bs: "normalizeBreadcrumbs E (dflt (getProp ?arg (str ''breadcrumbs'')) (JArr False [])) = Inr bs"
      by (auto simp: nb)
    from levelOf_string [of E "st_level st" t] assms(1) obtain lv where
      lv: "levelOf E (getProp ?arg (str ''level'')) (getProp ?arg (str ''type'')) = Inr lv"
      by auto
    have ts: "toDate E (dflt (getProp ?arg (str ''timestamp'')) (JDate False (Some (now E))))
        = Inr (st_timestamp st)"
      using toDate_instance [OF assms(2)] by simp
    have "\<not> isNullish ?arg"
      by (simp add: isNullish_def)
    from AppError_new_total [OF this nm m lv bs ts] show "\<exists>e. build E st = Inr e"
      by (auto simp: build_def)
  }
qed

lemma build_fresh:
  assumes "st_type st = JStr t" "instanceofDate (st_timestamp st)"
    "st_messages st = JObj Plain False
             [(str ''user'', JObj Plain False
                 [(str ''fa'', JStr default_fa), (str ''en'', JStr default_en)]),
              (str ''original'', JObj Plain False
                 [(str ''fa'', JStr default_fa), (str ''en'', JStr default_en)])]"
    "st_breadcrumbs st = JArr False []"
  shows "\<exists>e. build E st = Inr e"
proof -
  have "\<exists>nm m bs. normalizeMessages (st_messages st) = Inr nm
        \<and> tpl E (baseMessage (getProp nm (str ''user''))) = Inr m
        \<and> normalizeBreadcrumbs E (st_breadcrumbs st) = Inr bs"
    by (simp add: assms(3,4) normalizeMessages_def dflt_def Let_def cloneLocalizedMessages_def
        ensureLocalizedText_def isNullish_def nc_def baseMessage_def)
  then show ?thesis
    by (simp add: build_returns_iff [OF assms(1,2), of E])
qed

lemma createAppErrorBuilder_accepts:
  assumes "\<not> isNullish arg" "getProp arg (str ''code'') = JStr s" "trim s \<noteq> []"
    "List.member VALID_TYPES (getProp arg (str ''type''))"
  shows "\<exists>t. getProp arg (str ''type'') = JStr t \<and> createAppErrorBuilder E arg =
     Inr \<lparr> st_code = JStr (trim s),
           st_type = getProp arg (str ''type''),
           st_level = nc (getProp (JObj Plain True DEFAULT_LEVEL_BY_TYPE) t) (JStr (str ''error'')),
           st_messages = JObj Plain False
             [(str ''user'', JObj Plain False
                 [(str ''fa'', JStr default_fa), (str ''en'', JStr default_en)]),
              (str ''original'', JObj Plain False
                 [(str ''fa'', JStr default_fa), (str ''en'', JStr default_en)])],
           st_reason = JNull,
           st_descriptions = JArr False [],
           st_service = JNull,
           st_metadata = JObj Plain False [],
           st_breadcrumbs = JArr False [],
           st_causes = JArr False [],
           st_originalError = JNull,
           st_timestamp = JDate False (Some (now E)) \<rparr>"
proof -
  from assms(4) obtain t where t: "getProp arg (str ''type'') = JStr t"
    by (auto simp: VALID_TYPES_def)
  with assms show ?thesis
    by (simp add: createAppErrorBuilder_def assertCode_def assertType_def createDefaultMessages_eval
        Let_def defaultLevelOf_string)
qed

lemma createAppErrorBuilder_Inr:
  assumes "createAppErrorBuilder E arg = Inr st"
  shows "\<exists>s. \<not> isNullish arg \<and> getProp arg (str ''code'') = JStr s \<and> trim s \<noteq> []
           \<and> List.member VALID_TYPES (getProp arg (str ''type''))"
  using assms
  by (cases "getProp arg (str ''code'')")
    (auto simp: createAppErrorBuilder_def assertCode_def assertType_def Let_def
      split: if_splits option.splits sum.splits)

text \<open>
  Claim C10. A code accepted by \<open>createAppErrorBuilder\<close> is a string with at least one
  character that is not white space, and after any chain of setters the \<open>AppError\<close> that
  \<open>build()\<close> produces has as its \<open>code\<close> that string without its leading and trailing
  white space; \<open>build()\<close> produces one exactly when the constructor can convert the
  user-facing message to a string and normalize the breadcrumbs, as it does for every
  builder whose messages and breadcrumbs were not set. A code of white space only is
  rejected when the builder is created, and a code with a character that is not white space
  is accepted with a valid type.
\<close>

theorem build_code_trimmed:
  "(createAppErrorBuilder E arg = Inr st \<and> chain E st cs = Inr st' \<longrightarrow>
      (\<exists>s l r. getProp arg (str ''code'') = JStr s \<and> (\<exists>c\<in>set s. \<not> isWhiteSpace c)
         \<and> (\<forall>e. build E st' = Inr e \<longrightarrow> getProp e (str ''code'') = JStr (trim s))
         \<and> ((\<exists>e. build E st' = Inr e) \<longleftrightarrow>
              (\<exists>nm m bs. normalizeMessages (st_messages st') = Inr nm
                 \<and> tpl E (baseMessage (getProp nm (str ''user''))) = Inr m
                 \<and> normalizeBreadcrumbs E (st_breadcrumbs st') = Inr bs))
         \<and> (\<exists>e. build E st = Inr e)
         \<and> s = l @ trim s @ r \<and> (\<forall>c\<in>set l. isWhiteSpace c) \<and> (\<forall>c\<in>set r. isWhiteSpace c)
         \<and> \<not> isWhiteSpace (hd (trim s)) \<and> \<not> isWhiteSpace (last (trim s))))
   \<and> (\<not> isNullish arg \<and> getProp arg (str ''code'') = JStr s \<and> (\<forall>c\<in>set s. isWhiteSpace c) \<longrightarrow>
        createAppErrorBuilder E arg = Inl InvalidCode)
   \<and> (\<not> isNullish arg \<and> getProp arg (str ''code'') = JStr s \<and> (\<exists>c\<in>set s. \<not> isWhiteSpace c)
        \<and> List.member VALID_TYPES (getProp arg (str ''type'')) \<longrightarrow>
        (\<exists>st. createAppErrorBuilder E arg = Inr st))"
proof (intro conjI impI)
  assume a: "createAppErrorBuilder E arg = Inr st \<and> chain E st cs = Inr st'"
  from createAppErrorBuilder_Inr [of E arg st] a obtain s where
    s: "\<not> isNullish arg" "getProp arg (str ''code'') = JStr s" "trim s \<noteq> []"
      "List.member VALID_TYPES (getProp arg (str ''type''))"
    by blast
  from createAppErrorBuilder_accepts [OF s, of E] a obtain t where
    st: "st_code st = JStr (trim s)" "st_type st = JStr t" "instanceofDate (st_timestamp st)"
      "st_messages st = JObj Plain False
             [(str ''user'', JObj Plain False
                 [(str ''fa'', JStr default_fa), (str ''en'', JStr default_en)]),
              (str ''original'', JObj Plain False
                 [(str ''fa'', JStr default_fa), (str ''en'', JStr default_en)])]"
      "st_breadcrumbs st = JArr False []"
    by auto
  from chain_preserves [of E st cs st'] a st have
    st': "st_code st' = JStr (trim s)" "st_type st' = JStr t" "instanceofDate (st_timestamp st')"
    by auto
  have code: "\<forall>e. build E st' = Inr e \<longrightarrow> getProp e (str ''code'') = JStr (trim s)"
    using build_code [of E st'] st'(1) by simp
  note iff = build_returns_iff [OF st'(2,3), of E]
  note fresh = build_fresh [OF st(2-5), of E]
  from trim_decomp [of s] s(3) obtain l r where
    d: "s = l @ trim s @ r" "\<forall>c\<in>set l. isWhiteSpace c" "\<forall>c\<in>set r. isWhiteSpace c"
      "\<not> isWhiteSpace (hd (trim s))" "\<not> isWhiteSpace (last (trim s))"
    by blast
  from s(3) have "\<exists>c\<in>set s. \<not> isWhiteSpace c"
    by (simp add: trim_nil_iff)
  with s(2) code iff fresh d show "\<exists>s l r. getProp arg (str ''code'') = JStr s \<and> (\<exists>c\<in>set s. \<not> isWhiteSpace c)
         \<and> (\<forall>e. build E st' = Inr e \<longrightarrow> getProp e (str ''code'') = JStr (trim s))
         \<and> ((\<exists>e. build E st' = Inr e) \<longleftrightarrow>
              (\<exists>nm m bs. normalizeMessages (st_messages st') = Inr nm
                 \<and> tpl E (baseMessage (getProp nm (str ''user''))) = Inr m
                 \<and> normalizeBreadcrumbs E (st_breadcrumbs st') = Inr bs))
         \<and> (\<exists>e. build E st = Inr e)
         \<and> s = l @ trim s @ r \<and> (\<forall>c\<in>set l. isWhiteSpace c) \<and> (\<forall>c\<in>set r. isWhiteSpace c)
         \<and> \<not> isWhiteSpace (hd (trim s)) \<and> \<not> isWhiteSpace (last (trim s))"
    by blast
next
  assume a: "\<not> isNullish arg \<and> getProp arg (str ''code'') = JStr s \<and> (\<forall>c\<in>set s. isWhiteSpace c)"
  then have "trim s = []"
    by (simp add: trim_nil_iff)
  with a show "createAppErrorBuilder E arg = Inl InvalidCode"
    by (simp add: createAppErrorBuilder_def assertCode_def Let_def)
next
  assume a: "\<not> isNullish arg \<and> getProp arg (str ''code'') = JStr s \<and> (\<exists>c\<in>set s. \<not> isWhiteSpace c)
        \<and> List.member VALID_TYPES (getProp arg (str ''type''))"
  then have "trim s \<noteq> []"
    by (simp add: trim_nil_iff)
  with a createAppErrorBuilder_accepts [of arg s E] show "\<exists>st. createAppErrorBuilder E arg = Inr st"
    by blast
qed

lemma trim_padded: "trim (str ''  X  '') = str ''X''"
  by (simp add: trim_def str_def isWhiteSpace_def)

lemma network_valid: "List.member VALID_TYPES (JStr (str ''network''))"
  by (simp add: VALID_TYPES_def ERROR_TYPES_def)

theorem build_code_trimmed_witness:
  "(\<exists>st st' e.
      createAppErrorBuilder sampleEnv
        (JObj Plain False [(str ''code'', JStr (str ''  X  '')), (str ''type'', JStr (str ''network''))])
        = Inr st
      \<and> chain sampleEnv st [WithReason (JStr (str ''Timeout''))] = Inr st'
      \<and> build sampleEnv st' = Inr e
      \<and> getProp e (str ''code'') = JStr (str ''X''))
   \<and> createAppErrorBuilder sampleEnv
        (JObj Plain False [(str ''code'', JStr (str ''   '')), (str ''type'', JStr (str ''network''))])
        = Inl InvalidCode"
proof -
  let ?arg = "JObj Plain False
    [(str ''code'', JStr (str ''  X  '')), (str ''type'', JStr (str ''network''))]"
  let ?blank = "JObj Plain False
    [(str ''code'', JStr (str ''   '')), (str ''type'', JStr (str ''network''))]"
  have "str ''X'' \<noteq> []"
    by (simp add: str_def)
  then have x: "trim (str ''  X  '') \<noteq> []"
    by (simp add: trim_padded)
  have arg: "\<not> isNullish ?arg" "getProp ?arg (str ''code'') = JStr (str ''  X  '')"
    "List.member VALID_TYPES (getProp ?arg (str ''type''))"
    using network_valid by (simp_all add: isNullish_def)
  from createAppErrorBuilder_accepts [OF arg(1,2) x arg(3), of sampleEnv]
  obtain st where st: "createAppErrorBuilder sampleEnv ?arg = Inr st"
    and m: "st_messages st = JObj Plain False
             [(str ''user'', JObj Plain False
                 [(str ''fa'', JStr default_fa), (str ''en'', JStr default_en)]),
              (str ''original'', JObj Plain False
                 [(str ''fa'', JStr default_fa), (str ''en'', JStr default_en)])]"
    and b: "st_breadcrumbs st = JArr False []"
    by auto
  let ?st' = "st\<lparr>st_reason := JStr (str ''Timeout'')\<rparr>"
  have st': "chain sampleEnv st [WithReason (JStr (str ''Timeout''))] = Inr ?st'"
    by (simp add: withReason_def isNullish_def nc_def)
  have r: "\<exists>nm m bs. normalizeMessages (st_messages ?st') = Inr nm
        \<and> tpl sampleEnv (baseMessage (getProp nm (str ''user''))) = Inr m
        \<and> normalizeBreadcrumbs sampleEnv (st_breadcrumbs ?st') = Inr bs"
    by (simp add: m b normalizeMessages_def dflt_def Let_def cloneLocalizedMessages_def
        ensureLocalizedText_def isNullish_def nc_def baseMessage_def)
  from build_code_trimmed [of sampleEnv ?arg st "[WithReason (JStr (str ''Timeout''))]" ?st' "[]",
      THEN conjunct1, THEN mp, OF conjI [OF st st']] r
  obtain s e where "getProp ?arg (str ''code'') = JStr s" "build sampleEnv ?st' = Inr e"
    "\<forall>e. build sampleEnv ?st' = Inr e \<longrightarrow> getProp e (str ''code'') = JStr (trim s)"
    by blast
  then have "build sampleEnv ?st' = Inr e" "getProp e (str ''code'') = JStr (trim (str ''  X  ''))"
    by simp_all
  then have 1: "\<exists>st st' e. createAppErrorBuilder sampleEnv ?arg = Inr st
      \<and> chain sampleEnv st [WithReason (JStr (str ''Timeout''))] = Inr st'
      \<and> build sampleEnv st' = Inr e
      \<and> getProp e (str ''code'') = JStr (str ''X'')"
    using st st' by (auto simp: trim_padded)
  have "\<forall>c\<in>set (str ''   ''). isWhiteSpace c"
    by (simp add: str_def isWhiteSpace_def)
  moreover have "\<not> isNullish ?blank" "getProp ?blank (str ''code'') = JStr (str ''   '')"
    by (simp_all add: isNullish_def)
  ultimately have 2: "createAppErrorBuilder sampleEnv ?blank = Inl InvalidCode"
    using build_code_trimmed [of sampleEnv ?blank _ _ _ "str ''   ''"] by blast
  from 1 2 show ?thesis by blast
qed

section \<open>The builder: validation\<close>









section \<open>Causes: the two coercions\<close>

lemma normalizeMessages_absent:
  "normalizeMessages JUndefined = Inr (JObj Plain False
     [(str ''user'', JObj Plain False [(str ''fa'', JStr default_fa), (str ''en'', JStr default_en)]),
      (str ''original'', JObj Plain False [(str ''fa'', JStr default_fa), (str ''en'', JStr default_en)])])"
  by (simp add: normalizeMessages_def ensureLocalizedText_def cloneFallback_def dflt_def Let_def
      isNullish_def nc_def optGet_def DEFAULT_MESSAGES_user_def DEFAULT_MESSAGES_original_def)

lemma AppError_new_defaults:
  assumes "\<not> isNullish arg" "getProp arg (str ''messages'') = JUndefined"
    "getProp arg (str ''type'') = JUndefined" "getProp arg (str ''breadcrumbs'') = JUndefined"
    "getProp arg (str ''timestamp'') = JUndefined"
  shows "\<exists>e. AppError_new E arg = Inr e"
proof -
  obtain nm where nm: "normalizeMessages (getProp arg (str ''messages'')) = Inr nm"
    using normalizeMessages_total [of "getProp arg (str ''messages'')"] assms(2) by auto
  from normalizeMessages_shape [OF nm] obtain a b c d where
    sh: "nm = JObj Plain False
            [(str ''user'', JObj Plain False [(str ''fa'', a), (str ''en'', b)]),
             (str ''original'', JObj Plain False [(str ''fa'', c), (str ''en'', d)])]"
    by blast
  from nm have b: "b = JStr default_en"
    by (auto simp: assms(2) sh normalizeMessages_def dflt_def Let_def cloneLocalizedMessages_def
        DEFAULT_MESSAGES_def DEFAULT_MESSAGES_user_def DEFAULT_MESSAGES_original_def
        ensureLocalizedText_def cloneFallback_def optGet_def isNullish_def nc_def)
  have m: "tpl E (baseMessage (getProp nm (str ''user''))) = Inr default_en"
    by (simp add: sh b baseMessage_def nc_def isNullish_def)
  have lv: "\<exists>lv. levelOf E (getProp arg (str ''level'')) (getProp arg (str ''type'')) = Inr lv"
    by (simp add: assms(3) levelOf_def defaultLevelOf_def)
  then obtain lv where
    lv: "levelOf E (getProp arg (str ''level'')) (getProp arg (str ''type'')) = Inr lv"
    by blast
  have bs: "normalizeBreadcrumbs E (dflt (getProp arg (str ''breadcrumbs'')) (JArr False [])) = Inr []"
    by (simp add: assms(4) dflt_def)
  have ts: "toDate E (dflt (getProp arg (str ''timestamp'')) (JDate False (Some (now E))))
      = Inr (JDate False (Some (now E)))"
    by (simp add: assms(5) dflt_def)
  from AppError_new_total [OF assms(1) nm m lv bs ts] show ?thesis .
qed

lemma ensureArray_cases:
  "isNullish v \<Longrightarrow> ensureArray v = JArr False []"
  "\<not> isNullish v \<Longrightarrow> \<not> isArray v \<Longrightarrow> ensureArray v = JArr False [v]"
  "isArray v \<Longrightarrow> ensureArray v = v"
  by (auto simp: ensureArray_def isNullish_def)

lemma build_Inr:
  assumes "build E st = Inr e"
  shows "getProp e (str ''causes'')
      = JArr True (case dflt (st_causes st) (JArr False []) of
                      JArr f xs \<Rightarrow> filter truthy (map normalizeCause xs) | _ \<Rightarrow> [])"
proof -
  from assms obtain e' where e': "AppError_new E (JObj Plain False
             [(str ''code'', st_code st),
              (str ''type'', st_type st),
              (str ''level'', st_level st),
              (str ''messages'', st_messages st),
              (str ''reason'', st_reason st),
              (str ''descriptions'', st_descriptions st),
              (str ''service'', st_service st),
              (str ''metadata'', st_metadata st),
              (str ''breadcrumbs'', st_breadcrumbs st),
              (str ''causes'', st_causes st),
              (str ''originalError'', st_originalError st),
              (str ''timestamp'', st_timestamp st)]) = Inr e'" and e: "e = freeze e'"
    by (auto simp: build_def split: sum.splits)
  from AppError_new_fields(9) [OF e'] e have "e = e'"
    by auto
  with AppError_new_fields(8) [OF e'] show ?thesis
    by simp
qed

lemma normalizeCause_message_object:
  "normalizeCause (JObj Plain f [(str ''message'', m)])
     = JObj Plain True [(str ''message'', ensureLocalizedText m DEFAULT_MESSAGES_original)]"
  by (simp add: normalizeCause_def)

text \<open>
  Claim C3. The two coercions of \<open>causes\<close> differ. The constructor turns every input that
  is not an array, a single bare object included, into the empty sequence. The builder's
  \<open>withCauses\<close> stores the empty sequence for \<open>null\<close> or an absent value, a one-element
  sequence for any other value that is not an array, and an array as it is. So
  \<open>withCauses({message: m})\<close> followed by \<open>build()\<close> yields one cause, and direct
  construction with \<open>causes: {message: m}\<close> yields none.
\<close>

theorem causes_coercion:
  "(AppError_new E arg = Inr e \<and> \<not> isArray (getProp arg (str ''causes'')) \<longrightarrow>
      getProp e (str ''causes'') = JArr True [])
   \<and> (isNullish v \<longrightarrow> withCauses st v = Inr (st\<lparr>st_causes := JArr False []\<rparr>))
   \<and> (\<not> isNullish v \<and> \<not> isArray v \<longrightarrow> withCauses st v = Inr (st\<lparr>st_causes := JArr False [v]\<rparr>))
   \<and> (isArray v \<longrightarrow> withCauses st v = Inr (st\<lparr>st_causes := v\<rparr>))
   \<and> (withCauses st (JObj Plain f [(str ''message'', m)]) = Inr st' \<and> build E st' = Inr e' \<longrightarrow>
        getProp e' (str ''causes'')
          = JArr True [JObj Plain True
                         [(str ''message'', ensureLocalizedText m DEFAULT_MESSAGES_original)]])
   \<and> (AppError_new E arg = Inr e \<and> getProp arg (str ''causes'') = JObj Plain f [(str ''message'', m)] \<longrightarrow>
        getProp e (str ''causes'') = JArr True [])"
proof (intro conjI impI)
  assume a: "AppError_new E arg = Inr e \<and> \<not> isArray (getProp arg (str ''causes''))"
  then show "getProp e (str ''causes'') = JArr True []"
    using AppError_new_fields(8) [of E arg e]
    by (cases "getProp arg (str ''causes'')") (auto simp: dflt_def)
next
  assume "isNullish v"
  then show "withCauses st v = Inr (st\<lparr>st_causes := JArr False []\<rparr>)"
    by (simp add: withCauses_def ensureArray_cases)
next
  assume "\<not> isNullish v \<and> \<not> isArray v"
  then show "withCauses st v = Inr (st\<lparr>st_causes := JArr False [v]\<rparr>)"
    by (simp add: withCauses_def ensureArray_cases)
next
  assume "isArray v"
  then show "withCauses st v = Inr (st\<lparr>st_causes := v\<rparr>)"
    by (simp add: withCauses_def ensureArray_cases)
next
  assume a: "withCauses st (JObj Plain f [(str ''message'', m)]) = Inr st' \<and> build E st' = Inr e'"
  then have "st_causes st' = JArr False [JObj Plain f [(str ''message'', m)]]"
    by (auto simp: withCauses_def ensureArray_def isNullish_def)
  with build_Inr [of E st' e'] a show "getProp e' (str ''causes'')
          = JArr True [JObj Plain True
                         [(str ''message'', ensureLocalizedText m DEFAULT_MESSAGES_original)]]"
    by (simp add: dflt_def normalizeCause_message_object)
next
  assume a: "AppError_new E arg = Inr e \<and> getProp arg (str ''causes'') = JObj Plain f [(str ''message'', m)]"
  then show "getProp e (str ''causes'') = JArr True []"
    using AppError_new_fields(8) [of E arg e] by (simp add: dflt_def)
qed


theorem causes_coercion_witness:
  "(\<exists>e. AppError_new sampleEnv
          (JObj Plain False
             [(str ''code'', JStr (str ''CAUSE_INPUT'')),
              (str ''causes'', JObj Plain False [(str ''message'', JStr (str ''c''))])]) = Inr e
        \<and> getProp e (str ''causes'') = JArr True [])
   \<and> (\<exists>st' e'. withCauses sampleState (JObj Plain False [(str ''message'', JStr (str ''c''))]) = Inr st'
        \<and> build sampleEnv st' = Inr e'
        \<and> getProp e' (str ''causes'')
            = JArr True [JObj Plain True
                [(str ''message'',
                  JObj Plain False [(str ''fa'', JStr (str ''c'')), (str ''en'', JStr (str ''c''))])]])
   \<and> withCauses sampleState JUndefined = Inr (sampleState\<lparr>st_causes := JArr False []\<rparr>)
   \<and> withCauses sampleState (JNum 42) = Inr (sampleState\<lparr>st_causes := JArr False [JNum 42]\<rparr>)
   \<and> withCauses sampleState (JArr False [JNum 1, JNum 2])
       = Inr (sampleState\<lparr>st_causes := JArr False [JNum 1, JNum 2]\<rparr>)"
proof -
  let ?c = "JObj Plain False [(str ''message'', JStr (str ''c''))]"
  let ?arg = "JObj Plain False [(str ''code'', JStr (str ''CAUSE_INPUT'')), (str ''causes'', ?c)]"
  have "\<not> isNullish ?arg" "getProp ?arg (str ''messages'') = JUndefined"
    "getProp ?arg (str ''type'') = JUndefined" "getProp ?arg (str ''breadcrumbs'') = JUndefined"
    "getProp ?arg (str ''timestamp'') = JUndefined"
    by (simp_all add: isNullish_def)
  from AppError_new_defaults [OF this] obtain e where e: "AppError_new sampleEnv ?arg = Inr e"
    by blast
  have c: "getProp ?arg (str ''causes'') = ?c" "\<not> isArray (getProp ?arg (str ''causes''))"
    by simp_all
  obtain st' where st': "withCauses sampleState ?c = Inr st'"
    by (simp add: withCauses_def)
  then have "st_type st' = JStr (str ''component'')" "instanceofDate (st_timestamp st')"
    "st_messages st' = JObj Plain False
             [(str ''user'', JObj Plain False
                 [(str ''fa'', JStr default_fa), (str ''en'', JStr default_en)]),
              (str ''original'', JObj Plain False
                 [(str ''fa'', JStr default_fa), (str ''en'', JStr default_en)])]"
    "st_breadcrumbs st' = JArr False []"
    by (auto simp: withCauses_def sampleState_def)
  from build_fresh [OF this] obtain e' where e': "build sampleEnv st' = Inr e'"
    by blast
  have l: "ensureLocalizedText (JStr (str ''c'')) DEFAULT_MESSAGES_original
      = JObj Plain False [(str ''fa'', JStr (str ''c'')), (str ''en'', JStr (str ''c''))]"
    by (simp add: ensureLocalizedText_def Let_def isNullish_def)
  have n: "isNullish JUndefined" "\<not> isNullish (JNum 42) \<and> \<not> isArray (JNum 42)"
    "isArray (JArr False [JNum 1, JNum 2])"
    by (simp_all add: isNullish_def)
  note t = causes_coercion [where E = sampleEnv and arg = ?arg and e = e and st = sampleState
      and f = False and m = "JStr (str ''c'')" and st' = st' and e' = e']
  have 1: "getProp e (str ''causes'') = JArr True []"
    using t e c by blast
  have 2: "getProp e' (str ''causes'')
      = JArr True [JObj Plain True
          [(str ''message'',
            JObj Plain False [(str ''fa'', JStr (str ''c'')), (str ''en'', JStr (str ''c''))])]]"
    using t st' e' l by simp
  have 3: "withCauses sampleState JUndefined = Inr (sampleState\<lparr>st_causes := JArr False []\<rparr>)"
    using causes_coercion [where v = JUndefined and st = sampleState] n(1) by blast
  have 4: "withCauses sampleState (JNum 42) = Inr (sampleState\<lparr>st_causes := JArr False [JNum 42]\<rparr>)"
    using causes_coercion [where v = "JNum 42" and st = sampleState] n(2) by blast
  have 5: "withCauses sampleState (JArr False [JNum 1, JNum 2])
       = Inr (sampleState\<lparr>st_causes := JArr False [JNum 1, JNum 2]\<rparr>)"
    using causes_coercion [where v = "JArr False [JNum 1, JNum 2]" and st = sampleState] n(3) by blast
  from 1 2 3 4 5 e st' e' show ?thesis
    by blast
qed

section \<open>Causes: the shapes\<close>

lemma map_fst_setKey: "k \<in> fst ` set ps \<Longrightarrow> map fst (setKey k v ps) = map fst ps"
  by (induction ps) auto

lemma map_of_setKey: "map_of (setKey k v ps) = (map_of ps)(k \<mapsto> v)"
  by (induction ps) (auto simp: fun_eq_iff)

lemma spreadProps_Plain: "spreadProps (JObj Plain f ps) = ps"
  by simp

text \<open>
  What \<open>normalizeCause\<close> does with each shape, and what the constructor keeps. The
  causes of a constructed \<open>AppError\<close> are the normalized entries of the input sequence
  that are truthy, in input order. An \<open>AppError\<close> is returned as it is; a native error
  is wrapped as the frozen \<open>{name, message, stack}\<close> with its own name and stack and its
  message localized; a plain object with a \<open>message\<close> keeps its keys and its other
  fields, with the message localized in place; any other truthy value is returned as it
  is. So for \<open>[anAppError, aNativeError, anObjectWithMessage, null]\<close> the causes are the
  three normalized entries, in order.
\<close>

lemma normalizeCause_shapes:
  "(AppError_new E arg = Inr e \<and> getProp arg (str ''causes'') = JArr f xs \<longrightarrow>
      getProp e (str ''causes'') = JArr True (filter truthy (map normalizeCause xs)))
   \<and> (\<not> truthy c \<longrightarrow> normalizeCause c = JNull \<and> filter truthy (map normalizeCause [c]) = [])
   \<and> (instanceofAppError c \<longrightarrow> normalizeCause c = c)
   \<and> (c = JObj NativeError fl ps \<longrightarrow>
        normalizeCause c = JObj Plain True
          [(str ''name'', getProp c (str ''name'')),
           (str ''message'',
              ensureLocalizedText (getProp c (str ''message'')) DEFAULT_MESSAGES_original),
           (str ''stack'', getProp c (str ''stack''))])
   \<and> (c = JObj Plain fl ps \<and> hasProp (str ''message'') c \<longrightarrow>
        (\<exists>qs. normalizeCause c = JObj Plain True qs \<and> map fst qs = map fst ps
           \<and> (\<forall>k. k \<noteq> str ''message'' \<longrightarrow> map_of qs k = map_of ps k)
           \<and> map_of qs (str ''message'')
               = Some (ensureLocalizedText (getProp c (str ''message'')) DEFAULT_MESSAGES_original)))
   \<and> (truthy c \<and> \<not> instanceofError c \<and> \<not> (typeof c = ''object'' \<and> hasProp (str ''message'') c) \<longrightarrow>
        normalizeCause c = c)
   \<and> (instanceofAppError a \<and> n = JObj NativeError fn pn \<and> p = JObj Plain fp pp
        \<and> hasProp (str ''message'') p
        \<and> AppError_new E arg = Inr e \<and> getProp arg (str ''causes'') = JArr f [a, n, p, JNull] \<longrightarrow>
        getProp e (str ''causes'') = JArr True [a, normalizeCause n, normalizeCause p]
        \<and> normalizeCause a = a)"
proof (intro conjI impI)
  assume "AppError_new E arg = Inr e \<and> getProp arg (str ''causes'') = JArr f xs"
  then show "getProp e (str ''causes'') = JArr True (filter truthy (map normalizeCause xs))"
    using AppError_new_fields(8) [of E arg e] by (simp add: dflt_def)
next
  assume "\<not> truthy c"
  then show "normalizeCause c = JNull" "filter truthy (map normalizeCause [c]) = []"
    by (simp_all add: normalizeCause_def)
next
  assume "instanceofAppError c"
  then show "normalizeCause c = c"
    by (cases c) (simp_all add: normalizeCause_def)
next
  assume "c = JObj NativeError fl ps"
  then show "normalizeCause c = JObj Plain True
          [(str ''name'', getProp c (str ''name'')),
           (str ''message'',
              ensureLocalizedText (getProp c (str ''message'')) DEFAULT_MESSAGES_original),
           (str ''stack'', getProp c (str ''stack''))]"
    by (simp add: normalizeCause_def)
next
  assume a: "c = JObj Plain fl ps \<and> hasProp (str ''message'') c"
  let ?m = "ensureLocalizedText (getProp c (str ''message'')) DEFAULT_MESSAGES_original"
  from a have "normalizeCause c = JObj Plain True (setKey (str ''message'') ?m ps)"
    by (auto simp: normalizeCause_def)
  moreover from a have "map fst (setKey (str ''message'') ?m ps) = map fst ps"
    by (auto simp: map_fst_setKey)
  ultimately show "\<exists>qs. normalizeCause c = JObj Plain True qs \<and> map fst qs = map fst ps
           \<and> (\<forall>k. k \<noteq> str ''message'' \<longrightarrow> map_of qs k = map_of ps k)
           \<and> map_of qs (str ''message'') = Some ?m"
    by (simp add: map_of_setKey)
next
  assume "truthy c \<and> \<not> instanceofError c \<and> \<not> (typeof c = ''object'' \<and> hasProp (str ''message'') c)"
  then show "normalizeCause c = c"
    by (cases c) (auto simp: normalizeCause_def)
next
  assume a: "instanceofAppError a \<and> n = JObj NativeError fn pn \<and> p = JObj Plain fp pp
        \<and> hasProp (str ''message'') p
        \<and> AppError_new E arg = Inr e \<and> getProp arg (str ''causes'') = JArr f [a, n, p, JNull]"
  then have na: "normalizeCause a = a" "truthy a"
    by (cases a; simp add: normalizeCause_def)+
  from a have "truthy (normalizeCause n)" "truthy (normalizeCause p)"
    by (simp_all add: normalizeCause_def)
  moreover have "\<not> truthy (normalizeCause JNull)"
    by (simp add: normalizeCause_def)
  ultimately show "getProp e (str ''causes'') = JArr True [a, normalizeCause n, normalizeCause p]"
    using AppError_new_fields(8) [of E arg e] a na by (simp add: dflt_def)
  show "normalizeCause a = a"
    by (rule na)
qed


lemma sampleError_constructed:
  "AppError_new sampleEnv (JObj Plain False
       [(str ''code'', JStr (str ''X'')), (str ''messages'', JStr (str ''down''))])
   = Inr sampleError"
  by (simp add: AppError_new_down sampleError_def)

lemma ensureLocalizedText_string:
  "ensureLocalizedText (JStr s) fb = JObj Plain False [(str ''fa'', JStr s), (str ''en'', JStr s)]"
  by (simp add: ensureLocalizedText_def Let_def isNullish_def)

lemma normalizeCause_shapes_example:
  "\<exists>e. AppError_new sampleEnv
          (JObj Plain False
             [(str ''code'', JStr (str ''OUTER'')),
              (str ''causes'', JArr False
                 [sampleError,
                  JObj NativeError False
                    [(str ''name'', JStr (str ''Error'')),
                     (str ''message'', JStr (str ''e'')),
                     (str ''stack'', JStr (str ''Error: e at <anonymous>''))],
                  JObj Plain False
                    [(str ''message'', JStr (str ''c'')), (str ''status'', JNum 500)],
                  JNull])]) = Inr e
     \<and> getProp e (str ''causes'')
        = JArr True
            [sampleError,
             JObj Plain True
               [(str ''name'', JStr (str ''Error'')),
                (str ''message'',
                   JObj Plain False [(str ''fa'', JStr (str ''e'')), (str ''en'', JStr (str ''e''))]),
                (str ''stack'', JStr (str ''Error: e at <anonymous>''))],
             JObj Plain True
               [(str ''message'',
                   JObj Plain False [(str ''fa'', JStr (str ''c'')), (str ''en'', JStr (str ''c''))]),
                (str ''status'', JNum 500)]]"
proof -
  let ?n = "JObj NativeError False
     [(str ''name'', JStr (str ''Error'')),
      (str ''message'', JStr (str ''e'')),
      (str ''stack'', JStr (str ''Error: e at <anonymous>''))]"
  let ?p = "JObj Plain False [(str ''message'', JStr (str ''c'')), (str ''status'', JNum 500)]"
  let ?arg = "JObj Plain False
     [(str ''code'', JStr (str ''OUTER'')),
      (str ''causes'', JArr False [sampleError, ?n, ?p, JNull])]"
  have "\<not> isNullish ?arg" "getProp ?arg (str ''messages'') = JUndefined"
    "getProp ?arg (str ''type'') = JUndefined" "getProp ?arg (str ''breadcrumbs'') = JUndefined"
    "getProp ?arg (str ''timestamp'') = JUndefined"
    by (simp_all add: isNullish_def)
  from AppError_new_defaults [OF this] obtain e where e: "AppError_new sampleEnv ?arg = Inr e"
    by blast
  have h: "instanceofAppError sampleError \<and> ?n = JObj NativeError False
       [(str ''name'', JStr (str ''Error'')),
        (str ''message'', JStr (str ''e'')),
        (str ''stack'', JStr (str ''Error: e at <anonymous>''))]
     \<and> ?p = JObj Plain False [(str ''message'', JStr (str ''c'')), (str ''status'', JNum 500)]
     \<and> hasProp (str ''message'') ?p
     \<and> AppError_new sampleEnv ?arg = Inr e
     \<and> getProp ?arg (str ''causes'') = JArr False [sampleError, ?n, ?p, JNull]"
    using e by (simp add: sampleError_def)
  note t = normalizeCause_shapes [where E = sampleEnv and arg = ?arg and e = e and a = sampleError
      and n = ?n and p = ?p and f = False, THEN conjunct2, THEN conjunct2, THEN conjunct2,
      THEN conjunct2, THEN conjunct2, THEN conjunct2, THEN mp, OF h]
  have n: "normalizeCause ?n = JObj Plain True
               [(str ''name'', JStr (str ''Error'')),
                (str ''message'',
                   JObj Plain False [(str ''fa'', JStr (str ''e'')), (str ''en'', JStr (str ''e''))]),
                (str ''stack'', JStr (str ''Error: e at <anonymous>''))]"
    by (simp add: normalizeCause_def ensureLocalizedText_string)
  have p: "normalizeCause ?p = JObj Plain True
               [(str ''message'',
                   JObj Plain False [(str ''fa'', JStr (str ''c'')), (str ''en'', JStr (str ''c''))]),
                (str ''status'', JNum 500)]"
    by (simp add: normalizeCause_def ensureLocalizedText_string)
  from t e show ?thesis
    by (simp add: n p)
qed


text \<open>
  Claim C4. The code departs from the claim, and from what its own documentation says of
  causes (``everything else is returned as-is''), on the primitive values that are falsy.
  The numbers \<open>0\<close> and \<open>NaN\<close>, the empty string and \<open>false\<close> are of none of the
  shapes \<open>AppError\<close>, native error, object with a \<open>message\<close>, and none is \<open>null\<close>;
  the claim has them passed through verbatim, like \<open>42\<close>. But \<open>normalizeCause\<close>
  begins with \<open>if (!cause) return null\<close> and the constructor filters with \<open>Boolean\<close>:
  \<open>new AppError({ code: "X", causes: [0, "", false, NaN, 42] })\<close> has the single cause
  \<open>42\<close>.
\<close>

theorem causes_falsy_dropped:
  "resultField
     (AppError_new sampleEnv
        (JObj Plain False
           [(str ''code'', JStr (str ''X'')),
            (str ''causes'', JArr False [JNum 0, JStr [], JBool False, JNaN, JNum 42])]))
     (str ''causes'')
    = JArr True [JNum 42]
   \<and> normalizeCause (JNum 0) = JNull \<and> normalizeCause (JStr []) = JNull
   \<and> normalizeCause (JBool False) = JNull \<and> normalizeCause JNaN = JNull
   \<and> normalizeCause (JNum 42) = JNum 42
   \<and> list_all (\<lambda>c. c \<noteq> JNull \<and> \<not> instanceofAppError c \<and> \<not> instanceofError c
                    \<and> typeof c \<noteq> ''object'')
        [JNum 0, JStr [], JBool False, JNaN, JNum 42]"
proof -
  let ?arg = "JObj Plain False
    [(str ''code'', JStr (str ''X'')),
     (str ''causes'', JArr False [JNum 0, JStr [], JBool False, JNaN, JNum 42])]"
  have "\<not> isNullish ?arg" "getProp ?arg (str ''messages'') = JUndefined"
    "getProp ?arg (str ''type'') = JUndefined" "getProp ?arg (str ''breadcrumbs'') = JUndefined"
    "getProp ?arg (str ''timestamp'') = JUndefined"
    by (simp_all add: isNullish_def)
  from AppError_new_defaults [OF this] obtain e where e: "AppError_new sampleEnv ?arg = Inr e"
    by blast
  from AppError_new_fields(8) [OF e] have "getProp e (str ''causes'') = JArr True [JNum 42]"
    by (simp add: dflt_def normalizeCause_def)
  with e show ?thesis
    by (simp add: resultField_def normalizeCause_def)
qed

section \<open>Breadcrumbs\<close>

lemma collect_Inr_set:
  "collect (map f xs) = Inr ys \<Longrightarrow> y \<in> set ys \<Longrightarrow> \<exists>x\<in>set xs. f x = Inr y"
  by (induction xs arbitrary: ys) (auto split: sum.splits)

lemma collect_all_Inr: "collect (map Inr xs) = Inr xs"
  by (induction xs) auto

lemma normalizeBreadcrumb_kept:
  assumes "truthy b" "typeof b \<noteq> ''string''" "truthy (getProp b (str ''message''))"
  shows "normalizeBreadcrumb E b =
     (case (if truthy (getProp b (str ''timestamp''))
            then dateTime E (getProp b (str ''timestamp'')) else Inr (Some (now E))) of
        Inl e \<Rightarrow> Inl e
      | Inr timeValue \<Rightarrow>
          Inr (JObj Plain True
            [(str ''message'', ensureLocalizedText (getProp b (str ''message'')) DEFAULT_MESSAGES_user),
             (str ''category'', nc (getProp b (str ''category'')) JNull),
             (str ''level'', nc (getProp b (str ''level'')) JNull),
             (str ''data'', nc (getProp b (str ''data'')) JNull),
             (str ''timestamp'', JNum (case timeValue of None \<Rightarrow> now E | Some t \<Rightarrow> t))]))"
  using assms by (simp add: normalizeBreadcrumb_def Let_def split: sum.splits)

text \<open>
  What the normalization of breadcrumbs does when it returns. The breadcrumbs of the
  instance are the normalized entries that are kept, in order. A falsy entry and an entry
  without a (truthy) message are dropped; a non-empty string becomes the synthetic entry
  stamped with the capture time; a kept entry whose timestamp is absent or unparsable is
  stamped with the capture time; an entry with a message and a timestamp that \<open>new Date\<close>
  cannot convert makes the normalization throw. In particular
  \<open>[{category: x}, {message: m}]\<close> yields exactly one breadcrumb, the one with the message.
\<close>

lemma breadcrumb_shapes:
  "(AppError_new E arg = Inr e \<longrightarrow>
        (\<exists>bs. collect (map (normalizeBreadcrumb E)
                 (toArray (dflt (getProp arg (str ''breadcrumbs'')) (JArr False [])))) = Inr bs
           \<and> getProp e (str ''breadcrumbs'') = JArr True (filter truthy bs)))
   \<and> (\<not> truthy b \<longrightarrow> normalizeBreadcrumb E b = Inr JNull)
   \<and> (typeof b \<noteq> ''string'' \<and> \<not> truthy (getProp b (str ''message'')) \<longrightarrow>
        normalizeBreadcrumb E b = Inr JNull)
   \<and> (s \<noteq> [] \<longrightarrow>
        normalizeBreadcrumb E (JStr s) = Inr (JObj Plain True
          [(str ''message'', JObj Plain False [(str ''fa'', JStr s), (str ''en'', JStr s)]),
           (str ''category'', JNull),
           (str ''level'', JNull),
           (str ''data'', JNull),
           (str ''timestamp'', JNum (now E))]))
   \<and> (truthy b \<and> typeof b \<noteq> ''string'' \<and> truthy (getProp b (str ''message''))
        \<and> (\<not> truthy (getProp b (str ''timestamp''))
             \<or> dateTime E (getProp b (str ''timestamp'')) = Inr None) \<longrightarrow>
        (\<exists>r. normalizeBreadcrumb E b = Inr r \<and> truthy r
           \<and> getProp r (str ''timestamp'') = JNum (now E)))
   \<and> (truthy b \<and> typeof b \<noteq> ''string'' \<and> truthy (getProp b (str ''message''))
        \<and> truthy (getProp b (str ''timestamp''))
        \<and> dateTime E (getProp b (str ''timestamp'')) = Inl err \<longrightarrow>
        normalizeBreadcrumb E b = Inl err)
   \<and> (AppError_new E arg = Inr e \<and> truthy m
        \<and> getProp arg (str ''breadcrumbs'')
            = JArr f [JObj Plain f1 [(str ''category'', x)], JObj Plain f2 [(str ''message'', m)]] \<longrightarrow>
        getProp e (str ''breadcrumbs'')
          = JArr True [JObj Plain True
              [(str ''message'', ensureLocalizedText m DEFAULT_MESSAGES_user),
               (str ''category'', JNull),
               (str ''level'', JNull),
               (str ''data'', JNull),
               (str ''timestamp'', JNum (now E))]])"
proof (intro conjI impI)
  assume "AppError_new E arg = Inr e"
  from AppError_new_fields(7) [OF this]
  show "\<exists>bs. collect (map (normalizeBreadcrumb E)
                 (toArray (dflt (getProp arg (str ''breadcrumbs'')) (JArr False [])))) = Inr bs
           \<and> getProp e (str ''breadcrumbs'') = JArr True (filter truthy bs)"
    by (auto simp: normalizeBreadcrumbs_def split: sum.splits)
next
  assume "\<not> truthy b"
  then show "normalizeBreadcrumb E b = Inr JNull"
    by (simp add: normalizeBreadcrumb_def)
next
  assume "typeof b \<noteq> ''string'' \<and> \<not> truthy (getProp b (str ''message''))"
  then show "normalizeBreadcrumb E b = Inr JNull"
    by (simp add: normalizeBreadcrumb_def Let_def)
next
  assume "s \<noteq> []"
  then show "normalizeBreadcrumb E (JStr s) = Inr (JObj Plain True
          [(str ''message'', JObj Plain False [(str ''fa'', JStr s), (str ''en'', JStr s)]),
           (str ''category'', JNull),
           (str ''level'', JNull),
           (str ''data'', JNull),
           (str ''timestamp'', JNum (now E))])"
    by (simp add: normalizeBreadcrumb_def ensureLocalizedText_string)
next
  assume a: "truthy b \<and> typeof b \<noteq> ''string'' \<and> truthy (getProp b (str ''message''))
        \<and> (\<not> truthy (getProp b (str ''timestamp''))
             \<or> dateTime E (getProp b (str ''timestamp'')) = Inr None)"
  then show "\<exists>r. normalizeBreadcrumb E b = Inr r \<and> truthy r
           \<and> getProp r (str ''timestamp'') = JNum (now E)"
    by (auto simp: normalizeBreadcrumb_kept)
next
  assume a: "truthy b \<and> typeof b \<noteq> ''string'' \<and> truthy (getProp b (str ''message''))
        \<and> truthy (getProp b (str ''timestamp''))
        \<and> dateTime E (getProp b (str ''timestamp'')) = Inl err"
  then show "normalizeBreadcrumb E b = Inl err"
    by (simp add: normalizeBreadcrumb_kept)
next
  assume a: "AppError_new E arg = Inr e \<and> truthy m
        \<and> getProp arg (str ''breadcrumbs'')
            = JArr f [JObj Plain f1 [(str ''category'', x)], JObj Plain f2 [(str ''message'', m)]]"
  have 1: "normalizeBreadcrumb E (JObj Plain f1 [(str ''category'', x)]) = Inr JNull"
    by (simp add: normalizeBreadcrumb_def)
  from a have 2: "normalizeBreadcrumb E (JObj Plain f2 [(str ''message'', m)]) = Inr (JObj Plain True
              [(str ''message'', ensureLocalizedText m DEFAULT_MESSAGES_user),
               (str ''category'', JNull),
               (str ''level'', JNull),
               (str ''data'', JNull),
               (str ''timestamp'', JNum (now E))])"
    by (simp add: normalizeBreadcrumb_kept nc_def isNullish_def)
  from a show "getProp e (str ''breadcrumbs'')
          = JArr True [JObj Plain True
              [(str ''message'', ensureLocalizedText m DEFAULT_MESSAGES_user),
               (str ''category'', JNull),
               (str ''level'', JNull),
               (str ''data'', JNull),
               (str ''timestamp'', JNum (now E))]]"
    using AppError_new_fields(7) [of E arg e]
    by (simp add: normalizeBreadcrumbs_def dflt_def toArray_def isNullish_def 1 2)
qed

lemma breadcrumb_shapes_example:
  "(\<exists>e. AppError_new sampleEnv
          (JObj Plain False
             [(str ''code'', JStr (str ''BREADCRUMB'')),
              (str ''breadcrumbs'', JArr False
                 [JObj Plain False [(str ''category'', JStr (str ''x''))],
                  JObj Plain False [(str ''message'', JStr (str ''ok''))]])]) = Inr e
     \<and> getProp e (str ''breadcrumbs'')
         = JArr True [JObj Plain True
              [(str ''message'',
                  JObj Plain False [(str ''fa'', JStr (str ''ok'')), (str ''en'', JStr (str ''ok''))]),
               (str ''category'', JNull),
               (str ''level'', JNull),
               (str ''data'', JNull),
               (str ''timestamp'', JNum 1000)]])
   \<and> (\<exists>r. normalizeBreadcrumb sampleEnv
        (JObj Plain False
           [(str ''message'', JStr (str ''m'')), (str ''timestamp'', JStr (str ''invalid-date''))])
        = Inr r \<and> getProp r (str ''timestamp'') = JNum 1000)"
proof -
  let ?b1 = "JObj Plain False [(str ''category'', JStr (str ''x''))]"
  let ?b2 = "JObj Plain False [(str ''message'', JStr (str ''ok''))]"
  let ?arg = "JObj Plain False
     [(str ''code'', JStr (str ''BREADCRUMB'')),
      (str ''breadcrumbs'', JArr False [?b1, ?b2])]"
  let ?b = "JObj Plain False
     [(str ''message'', JStr (str ''m'')), (str ''timestamp'', JStr (str ''invalid-date''))]"
  have now: "now sampleEnv = 1000"
    by (simp add: sampleEnv_def)
  have ok: "truthy (JStr (str ''ok''))"
    by (simp add: str_def)
  have 1: "normalizeBreadcrumb sampleEnv ?b1 = Inr JNull"
    by (simp add: normalizeBreadcrumb_def)
  have 2: "normalizeBreadcrumb sampleEnv ?b2 = Inr (JObj Plain True
              [(str ''message'',
                  JObj Plain False [(str ''fa'', JStr (str ''ok'')), (str ''en'', JStr (str ''ok''))]),
               (str ''category'', JNull),
               (str ''level'', JNull),
               (str ''data'', JNull),
               (str ''timestamp'', JNum 1000)])"
    using ok by (simp add: normalizeBreadcrumb_kept nc_def isNullish_def ensureLocalizedText_string now)
  have bs: "normalizeBreadcrumbs sampleEnv (dflt (getProp ?arg (str ''breadcrumbs'')) (JArr False []))
      = Inr [JObj Plain True
              [(str ''message'',
                  JObj Plain False [(str ''fa'', JStr (str ''ok'')), (str ''en'', JStr (str ''ok''))]),
               (str ''category'', JNull),
               (str ''level'', JNull),
               (str ''data'', JNull),
               (str ''timestamp'', JNum 1000)]]"
    by (simp add: normalizeBreadcrumbs_def dflt_def toArray_def isNullish_def 1 2)
  have m: "tpl sampleEnv (baseMessage (getProp (JObj Plain False
     [(str ''user'', JObj Plain False [(str ''fa'', JStr default_fa), (str ''en'', JStr default_en)]),
      (str ''original'', JObj Plain False [(str ''fa'', JStr default_fa), (str ''en'', JStr default_en)])])
     (str ''user''))) = Inr default_en"
    by (simp add: baseMessage_def nc_def isNullish_def)
  have "\<not> isNullish ?arg"
    "normalizeMessages (getProp ?arg (str ''messages'')) = Inr (JObj Plain False
     [(str ''user'', JObj Plain False [(str ''fa'', JStr default_fa), (str ''en'', JStr default_en)]),
      (str ''original'', JObj Plain False [(str ''fa'', JStr default_fa), (str ''en'', JStr default_en)])])"
    "levelOf sampleEnv (getProp ?arg (str ''level'')) (getProp ?arg (str ''type''))
       = Inr (JStr (str ''error''))"
    "toDate sampleEnv (dflt (getProp ?arg (str ''timestamp'')) (JDate False (Some (now sampleEnv))))
       = Inr (JDate False (Some (now sampleEnv)))"
    by (simp_all add: isNullish_def normalizeMessages_absent levelOf_sample_undefined dflt_def)
  from AppError_new_total [OF this(1,2) m this(3) bs this(4)]
  obtain e where e: "AppError_new sampleEnv ?arg = Inr e"
    by blast
  from AppError_new_fields(7) [OF e] bs have "getProp e (str ''breadcrumbs'')
         = JArr True [JObj Plain True
              [(str ''message'',
                  JObj Plain False [(str ''fa'', JStr (str ''ok'')), (str ''en'', JStr (str ''ok''))]),
               (str ''category'', JNull),
               (str ''level'', JNull),
               (str ''data'', JNull),
               (str ''timestamp'', JNum 1000)]]"
    by (simp add: dflt_def)
  moreover have "\<exists>r. normalizeBreadcrumb sampleEnv ?b = Inr r
      \<and> getProp r (str ''timestamp'') = JNum 1000"
    by (simp add: normalizeBreadcrumb_kept str_def sampleEnv_def)
  ultimately show ?thesis
    using e by blast
qed

text \<open>
  Claim C9. The code departs from the claim: the normalization of breadcrumbs can raise.
  For an entry with a message it evaluates \<open>new Date(timestamp)\<close> on whatever truthy
  timestamp the entry holds, and \<open>new Date\<close> throws a \<open>TypeError\<close> for an object with
  no primitive value, such as \<open>{ toString: null, valueOf: null }\<close> or an object without
  prototype. So
  \<open>new AppError({ code: "X", breadcrumbs: [{ message: "m", timestamp: { toString: null, valueOf: null } }] })\<close>
  throws, where the claim has the entry stamped with the capture time, as an entry with
  the unparsable timestamp \<open>"invalid-date"\<close> is.
\<close>

theorem breadcrumb_timestamp_throws:
  "normalizeBreadcrumb sampleEnv
     (JObj Plain False
        [(str ''message'', JStr (str ''m'')),
         (str ''timestamp'', JObj Plain False [(str ''toString'', JNull), (str ''valueOf'', JNull)])])
     = Inl NotConvertible
   \<and> normalizeBreadcrumb sampleEnv
     (JObj Plain False
        [(str ''message'', JStr (str ''m'')), (str ''timestamp'', JInherit JNull False [])])
     = Inl NotConvertible
   \<and> AppError_new sampleEnv
       (JObj Plain False
          [(str ''code'', JStr (str ''X'')),
           (str ''breadcrumbs'', JArr False
              [JObj Plain False
                 [(str ''message'', JStr (str ''m'')),
                  (str ''timestamp'',
                     JObj Plain False [(str ''toString'', JNull), (str ''valueOf'', JNull)])]])])
     = Inl NotConvertible
   \<and> normalizeBreadcrumb sampleEnv
     (JObj Plain False
        [(str ''message'', JStr (str ''m'')), (str ''timestamp'', JStr (str ''invalid-date''))])
     = Inr (JObj Plain True
         [(str ''message'',
             JObj Plain False [(str ''fa'', JStr (str ''m'')), (str ''en'', JStr (str ''m''))]),
          (str ''category'', JNull),
          (str ''level'', JNull),
          (str ''data'', JNull),
          (str ''timestamp'', JNum 1000)])"
proof -
  let ?t = "JObj Plain False [(str ''toString'', JNull), (str ''valueOf'', JNull)]"
  let ?b = "JObj Plain False [(str ''message'', JStr (str ''m'')), (str ''timestamp'', ?t)]"
  let ?b' = "JObj Plain False
    [(str ''message'', JStr (str ''m'')), (str ''timestamp'', JInherit JNull False [])]"
  let ?b'' = "JObj Plain False
    [(str ''message'', JStr (str ''m'')), (str ''timestamp'', JStr (str ''invalid-date''))]"
  have m: "truthy (JStr (str ''m''))"
    by (simp add: str_def)
  have t: "tpl sampleEnv ?t = Inl NotConvertible"
    "tpl sampleEnv (JInherit JNull False []) = Inl NotConvertible"
    by (simp_all add: tpl_object)
  have 1: "normalizeBreadcrumb sampleEnv ?b = Inl NotConvertible"
    using m by (simp add: normalizeBreadcrumb_kept t)
  have 2: "normalizeBreadcrumb sampleEnv ?b' = Inl NotConvertible"
    using m by (simp add: normalizeBreadcrumb_kept t)
  have 3: "AppError_new sampleEnv
       (JObj Plain False [(str ''code'', JStr (str ''X'')), (str ''breadcrumbs'', JArr False [?b])])
     = Inl NotConvertible"
    by (simp add: AppError_new_def Let_def isNullish_def normalizeMessages_absent errorMessage_def
        baseMessage_def nc_def levelOf_sample_undefined normalizeBreadcrumbs_def dflt_def
        toArray_def 1)
  have 4: "normalizeBreadcrumb sampleEnv ?b'' = Inr (JObj Plain True
         [(str ''message'',
             JObj Plain False [(str ''fa'', JStr (str ''m'')), (str ''en'', JStr (str ''m''))]),
          (str ''category'', JNull),
          (str ''level'', JNull),
          (str ''data'', JNull),
          (str ''timestamp'', JNum 1000)])"
    using m
    by (simp add: normalizeBreadcrumb_kept ensureLocalizedText_string nc_def isNullish_def)
      (simp add: sampleEnv_def)
  from 1 2 3 4 show ?thesis
    by blast
qed

section \<open>Freezing\<close>

lemma setKey_same: "map_of ps k = Some v \<Longrightarrow> setKey k v ps = ps"
  by (induction ps) (auto split: if_splits)

lemma assign_frozen: "isFrozen v \<Longrightarrow> assign v [k] x = v"
  by (cases v) (auto split: option.splits)

lemma assign_step:
  assumes "assign (getProp (JObj c f ps) k) (k' # ks) x = getProp (JObj c f ps) k"
  shows "assign (JObj c f ps) (k # k' # ks) x = JObj c f ps"
proof (cases "map_of ps k")
  case None
  then show ?thesis by simp
next
  case (Some child)
  with assms have "assign child (k' # ks) x = child"
    by simp
  with Some show ?thesis
    by (simp add: setKey_same)
qed

lemma isFrozen_freeze: "isFrozen (freeze v)"
  by (cases v) simp_all

lemma isFrozen_normalizeBreadcrumb: "normalizeBreadcrumb E b = Inr r \<Longrightarrow> isFrozen r"
  by (auto simp: normalizeBreadcrumb_def Let_def split: if_splits sum.splits)

lemma AppError_new_messages:
  assumes "AppError_new E arg = Inr e"
  shows "\<exists>a b c d. getProp e (str ''messages'') = JObj Plain True
            [(str ''user'', JObj Plain True [(str ''fa'', a), (str ''en'', b)]),
             (str ''original'', JObj Plain True [(str ''fa'', c), (str ''en'', d)])]"
proof -
  from AppError_new_Inr [OF assms] obtain nm where
    nm: "normalizeMessages (getProp arg (str ''messages'')) = Inr nm"
    and m: "getProp e (str ''messages'') = JObj Plain True
             [(str ''user'', JObj Plain True (spreadProps (getProp nm (str ''user'')))),
              (str ''original'', JObj Plain True (spreadProps (getProp nm (str ''original''))))]"
    by auto
  from normalizeMessages_shape [OF nm] m show ?thesis
    by auto
qed

lemma build_is_new:
  assumes "build E st = Inr e"
  shows "\<exists>arg. AppError_new E arg = Inr e"
proof -
  from assms obtain arg e' where e': "AppError_new E arg = Inr e'" and e: "e = freeze e'"
    by (auto simp: build_def split: sum.splits)
  from AppError_new_fields(9) [OF e'] e have "e = e'"
    by auto
  with e' show ?thesis
    by blast
qed


lemma AppError_new_frozen:
  assumes "AppError_new E arg = Inr e"
  shows "isFrozen e"
    and "isFrozen (getProp e (str ''messages''))"
    and "isFrozen (getProp (getProp e (str ''messages'')) (str ''user''))"
    and "isFrozen (getProp (getProp e (str ''messages'')) (str ''original''))"
    and "isFrozen (getProp e (str ''descriptions''))"
    and "isFrozen (getProp e (str ''service''))"
    and "isFrozen (getProp e (str ''metadata''))"
    and "isFrozen (getProp e (str ''breadcrumbs''))"
    and "\<forall>b\<in>set (elems (getProp e (str ''breadcrumbs''))). isFrozen b"
    and "isFrozen (getProp e (str ''causes''))"
proof -
  from AppError_new_fields(9) [OF assms] show "isFrozen e"
    by auto
  from AppError_new_messages [OF assms] show "isFrozen (getProp e (str ''messages''))"
    "isFrozen (getProp (getProp e (str ''messages'')) (str ''user''))"
    "isFrozen (getProp (getProp e (str ''messages'')) (str ''original''))"
    by auto
  show "isFrozen (getProp e (str ''descriptions''))"
    by (simp add: AppError_new_fields(4) [OF assms] isFrozen_freeze)
  show "isFrozen (getProp e (str ''service''))"
    by (simp add: AppError_new_fields(5) [OF assms])
  show "isFrozen (getProp e (str ''metadata''))"
    by (simp add: AppError_new_fields(6) [OF assms])
  show "isFrozen (getProp e (str ''breadcrumbs''))"
    using AppError_new_fields(7) [OF assms] by auto
  show "\<forall>b\<in>set (elems (getProp e (str ''breadcrumbs''))). isFrozen b"
    using AppError_new_fields(7) [OF assms]
    by (auto simp: normalizeBreadcrumbs_def split: sum.splits
        dest!: collect_Inr_set intro: isFrozen_normalizeBreadcrumb)
  show "isFrozen (getProp e (str ''causes''))"
    by (simp add: AppError_new_fields(8) [OF assms])
qed

text \<open>
  Claim C1, amended. For every \<open>AppError\<close> produced by the constructor, directly or by the
  builder's \<open>build()\<close>, these are frozen: the instance itself, \<open>messages\<close> and its two
  pairs, \<open>descriptions\<close>, \<open>service\<close>, \<open>metadata\<close>, \<open>breadcrumbs\<close> and each breadcrumb
  entry, and \<open>causes\<close>. So every assignment to a field of the instance, or to a
  property of one of these objects, leaves the instance as it is. Objects nested deeper
  are left as the caller passed them.
\<close>

theorem frozen_fields:
  "AppError_new E arg = Inr e \<or> build E st = Inr e \<longrightarrow>
     isFrozen e
     \<and> isFrozen (getProp e (str ''messages''))
     \<and> isFrozen (getProp (getProp e (str ''messages'')) (str ''user''))
     \<and> isFrozen (getProp (getProp e (str ''messages'')) (str ''original''))
     \<and> isFrozen (getProp e (str ''descriptions''))
     \<and> isFrozen (getProp e (str ''service''))
     \<and> isFrozen (getProp e (str ''metadata''))
     \<and> isFrozen (getProp e (str ''breadcrumbs''))
     \<and> (\<forall>b\<in>set (elems (getProp e (str ''breadcrumbs''))). isFrozen b)
     \<and> isFrozen (getProp e (str ''causes''))
     \<and> (\<forall>k x. assign e [k] x = e
            \<and> assign e [str ''messages'', k] x = e
            \<and> assign e [str ''messages'', str ''user'', k] x = e
            \<and> assign e [str ''messages'', str ''original'', k] x = e
            \<and> assign e [str ''descriptions'', k] x = e
            \<and> assign e [str ''service'', k] x = e
            \<and> assign e [str ''metadata'', k] x = e
            \<and> assign e [str ''breadcrumbs'', k] x = e
            \<and> assign e [str ''causes'', k] x = e)"
proof
  assume "AppError_new E arg = Inr e \<or> build E st = Inr e"
  then obtain arg' where new: "AppError_new E arg' = Inr e"
    using build_is_new by blast
  note fr = AppError_new_frozen [OF new]
  from AppError_new_fields(9) [OF new] obtain ps where e: "e = JObj AppErrorInst True ps"
    by blast
  have two: "assign e [k, k'] x = e" if "isFrozen (getProp e k)" for k k' x
    using that unfolding e by (intro assign_step assign_frozen)
  have three: "assign e [k, k', k''] x = e"
    if "\<exists>c f qs. getProp e k = JObj c f qs" "isFrozen (getProp (getProp e k) k')" for k k' k'' x
  proof -
    from that(1) obtain c f qs where q: "getProp e k = JObj c f qs"
      by blast
    have "assign (getProp e k) [k', k''] x = getProp e k"
      using that(2) unfolding q by (intro assign_step assign_frozen)
    then show ?thesis
      unfolding e by (rule assign_step)
  qed
  have m: "\<exists>c f qs. getProp e (str ''messages'') = JObj c f qs"
    using AppError_new_messages [OF new] by auto
  have "assign e [k] x = e
            \<and> assign e [str ''messages'', k] x = e
            \<and> assign e [str ''messages'', str ''user'', k] x = e
            \<and> assign e [str ''messages'', str ''original'', k] x = e
            \<and> assign e [str ''descriptions'', k] x = e
            \<and> assign e [str ''service'', k] x = e
            \<and> assign e [str ''metadata'', k] x = e
            \<and> assign e [str ''breadcrumbs'', k] x = e
            \<and> assign e [str ''causes'', k] x = e" for k x
    using fr two three m by (simp add: assign_frozen)
  with fr show "isFrozen e
     \<and> isFrozen (getProp e (str ''messages''))
     \<and> isFrozen (getProp (getProp e (str ''messages'')) (str ''user''))
     \<and> isFrozen (getProp (getProp e (str ''messages'')) (str ''original''))
     \<and> isFrozen (getProp e (str ''descriptions''))
     \<and> isFrozen (getProp e (str ''service''))
     \<and> isFrozen (getProp e (str ''metadata''))
     \<and> isFrozen (getProp e (str ''breadcrumbs''))
     \<and> (\<forall>b\<in>set (elems (getProp e (str ''breadcrumbs''))). isFrozen b)
     \<and> isFrozen (getProp e (str ''causes''))
     \<and> (\<forall>k x. assign e [k] x = e
            \<and> assign e [str ''messages'', k] x = e
            \<and> assign e [str ''messages'', str ''user'', k] x = e
            \<and> assign e [str ''messages'', str ''original'', k] x = e
            \<and> assign e [str ''descriptions'', k] x = e
            \<and> assign e [str ''service'', k] x = e
            \<and> assign e [str ''metadata'', k] x = e
            \<and> assign e [str ''breadcrumbs'', k] x = e
            \<and> assign e [str ''causes'', k] x = e)"
    by blast
qed


lemma AppError_new_nested:
  "AppError_new sampleEnv (JObj Plain False
       [(str ''code'', JStr (str ''X'')),
        (str ''metadata'', JObj Plain False
           [(str ''nested'', JObj Plain False [(str ''id'', JNum 1)])])])
  = Inr (JObj AppErrorInst True
      [(str ''message'', JStr default_en),
       (str ''name'', JStr (str ''AppError'')),
       (str ''code'', JStr (str ''X'')),
       (str ''type'', JUndefined),
       (str ''level'', JStr (str ''error'')),
       (str ''messages'', JObj Plain True
          [(str ''user'', JObj Plain True
              [(str ''fa'', JStr default_fa), (str ''en'', JStr default_en)]),
           (str ''original'', JObj Plain True
              [(str ''fa'', JStr default_fa), (str ''en'', JStr default_en)])]),
       (str ''reason'', JNull),
       (str ''descriptions'', JArr True []),
       (str ''service'', JNull),
       (str ''metadata'', JObj Plain True
          [(str ''nested'', JObj Plain False [(str ''id'', JNum 1)])]),
       (str ''breadcrumbs'', JArr True []),
       (str ''causes'', JArr True []),
       (str ''originalError'', JNull),
       (str ''timestamp'', JDate False (Some 1000)),
       (str ''stack'', JStr (str ''Error at <anonymous>''))])"
  by (simp add: AppError_new_def normalizeMessages_absent levelOf_sample_undefined
      isNullish_def Let_def dflt_def nc_def optGet_def baseMessage_def errorMessage_def)
    (simp add: sampleEnv_def)

text \<open>
  Claim C1, as stated, fails: the instance built by
  \<open>new AppError({ code: "X", metadata: { nested: { id: 1 } } })\<close> is not deeply
  immutable. The nested metadata mapping is not frozen, and the assignment
  \<open>error.metadata.nested.id = 2\<close> changes what the instance shows.
\<close>

theorem nested_metadata_counterexample:
  "\<not> deepFrozen (returned (AppError_new sampleEnv (JObj Plain False
       [(str ''code'', JStr (str ''X'')),
        (str ''metadata'', JObj Plain False
           [(str ''nested'', JObj Plain False [(str ''id'', JNum 1)])])])))
   \<and> getProp (getProp (getProp
        (returned (AppError_new sampleEnv (JObj Plain False
           [(str ''code'', JStr (str ''X'')),
            (str ''metadata'', JObj Plain False
               [(str ''nested'', JObj Plain False [(str ''id'', JNum 1)])])])))
        (str ''metadata'')) (str ''nested'')) (str ''id'') = JNum 1
   \<and> getProp (getProp (getProp
        (assign
           (returned (AppError_new sampleEnv (JObj Plain False
              [(str ''code'', JStr (str ''X'')),
               (str ''metadata'', JObj Plain False
                  [(str ''nested'', JObj Plain False [(str ''id'', JNum 1)])])])))
           [str ''metadata'', str ''nested'', str ''id''] (JNum 2))
        (str ''metadata'')) (str ''nested'')) (str ''id'') = JNum 2"
  by (simp add: AppError_new_nested returned_def)

theorem frozen_fields_witness:
  "isFrozen sampleError
   \<and> isFrozen (getProp (getProp sampleError (str ''messages'')) (str ''user''))
   \<and> assign sampleError [str ''code''] (JStr (str ''Y'')) = sampleError
   \<and> assign sampleError [str ''messages'', str ''user'', str ''en''] (JStr (str ''up'')) = sampleError
   \<and> assign sampleError [str ''metadata'', str ''extra''] (JNum 1) = sampleError
   \<and> assign sampleError [str ''causes'', str ''0''] JNull = sampleError"
  using frozen_fields [where E = sampleEnv and e = sampleError
      and arg = "JObj Plain False
        [(str ''code'', JStr (str ''X'')), (str ''messages'', JStr (str ''down''))]"]
    sampleError_constructed
  by simp

section \<open>Deep merge: associativity and concatenation\<close>


text \<open>
  Claim C5. The code departs from the claim on a mapping that has \<open>__proto__\<close> among its
  own keys, as \<open>JSON.parse('{"__proto__": {"x": [1]}}')\<close> has. With \<open>a = {}\<close>, that
  mapping as \<open>b\<close> and \<open>c = {x: [2]}\<close> the keys are pairwise disjoint at every level,
  yet the two sides of the associativity law differ. In \<open>deepMerge(a, b)\<close> the
  assignment \<open>result["__proto__"] = ...\<close> makes \<open>{x: [1]}\<close> the prototype of the
  result, so that merging \<open>c\<close> into it reads \<open>[1]\<close> at \<open>x\<close> and concatenates:
  \<open>deepMerge(deepMerge(a, b), c)\<close> is \<open>{x: [1, 2]}\<close>, while
  \<open>deepMerge(a, deepMerge(b, c))\<close> holds \<open>x: [2]\<close> (over the prototype \<open>{x: [1]}\<close>).
  The second half of the claim holds at its example:
  \<open>deepMerge({x: [1, 2]}, {x: [3]}).x\<close> is \<open>[1, 2, 3]\<close>.
\<close>

theorem deepMerge_proto_key_not_associative:
  "deepMerge
     (deepMerge (JObj Plain False [])
        (JObj Plain False
           [(str ''__proto__'', JObj Plain False [(str ''x'', JArr False [JNum 1])])]))
     (JObj Plain False [(str ''x'', JArr False [JNum 2])])
    = JObj Plain False [(str ''x'', JArr False [JNum 1, JNum 2])]
   \<and> deepMerge (JObj Plain False [])
      (deepMerge
         (JObj Plain False
            [(str ''__proto__'', JObj Plain False [(str ''x'', JArr False [JNum 1])])])
         (JObj Plain False [(str ''x'', JArr False [JNum 2])]))
    = JInherit (JObj Plain False [(str ''x'', JArr False [JNum 1])]) False
        [(str ''x'', JArr False [JNum 2])]
   \<and> getProp
       (deepMerge
          (deepMerge (JObj Plain False [])
             (JObj Plain False
                [(str ''__proto__'', JObj Plain False [(str ''x'', JArr False [JNum 1])])]))
          (JObj Plain False [(str ''x'', JArr False [JNum 2])]))
       (str ''x'')
      = JArr False [JNum 1, JNum 2]
   \<and> getProp
       (deepMerge (JObj Plain False [])
          (deepMerge
             (JObj Plain False
                [(str ''__proto__'', JObj Plain False [(str ''x'', JArr False [JNum 1])])])
             (JObj Plain False [(str ''x'', JArr False [JNum 2])])))
       (str ''x'')
      = JArr False [JNum 2]
   \<and> ownKeys (JObj Plain False []) = []
   \<and> ownKeys (JObj Plain False
         [(str ''__proto__'', JObj Plain False [(str ''x'', JArr False [JNum 1])])])
      = [str ''__proto__'']
   \<and> ownKeys (JObj Plain False [(str ''x'', JArr False [JNum 2])]) = [str ''x'']
   \<and> getProp
        (deepMerge (JObj Plain False [(str ''x'', JArr False [JNum 1, JNum 2])])
                   (JObj Plain False [(str ''x'', JArr False [JNum 3])]))
        (str ''x'')
       = JArr False [JNum 1, JNum 2, JNum 3]"
proof -
  let ?a = "JObj Plain False []"
  let ?b = "JObj Plain False
    [(str ''__proto__'', JObj Plain False [(str ''x'', JArr False [JNum 1])])]"
  let ?c = "JObj Plain False [(str ''x'', JArr False [JNum 2])]"
  have ab: "deepMerge ?a ?b = JInherit (JObj Plain False [(str ''x'', JArr False [JNum 1])]) False []"
    by code_simp
  have l: "deepMerge (JInherit (JObj Plain False [(str ''x'', JArr False [JNum 1])]) False []) ?c
      = JObj Plain False [(str ''x'', JArr False [JNum 1, JNum 2])]"
    by code_simp
  have bc: "deepMerge ?b ?c = JObj Plain False
      [(str ''__proto__'', JObj Plain False [(str ''x'', JArr False [JNum 1])]),
       (str ''x'', JArr False [JNum 2])]"
    by code_simp
  have r: "deepMerge ?a (JObj Plain False
      [(str ''__proto__'', JObj Plain False [(str ''x'', JArr False [JNum 1])]),
       (str ''x'', JArr False [JNum 2])])
      = JInherit (JObj Plain False [(str ''x'', JArr False [JNum 1])]) False
          [(str ''x'', JArr False [JNum 2])]"
    by code_simp
  have x: "deepMerge (JObj Plain False [(str ''x'', JArr False [JNum 1, JNum 2])])
                   (JObj Plain False [(str ''x'', JArr False [JNum 3])])
      = JObj Plain False [(str ''x'', JArr False [JNum 1, JNum 2, JNum 3])]"
    by code_simp
  show ?thesis
    by (simp add: ab l bc r x)
qed

section \<open>Deep merge on the store\<close>






























lemma refsBelow_append [simp]: "refsBelow m (vs @ ws) \<longleftrightarrow> refsBelow m vs \<and> refsBelow m ws"
  by (auto simp: refsBelow_def)

lemma refsBelow_Nil [simp]: "refsBelow m []"
  by (simp add: refsBelow_def)












section \<open>Deep merge: sharing\<close>




end
